theory Spec2Isabelle
  imports Main "HOL-Library.Sublist" "HOL-Library.Multiset"
begin

section \<open>JavaScript strings\<close>

text \<open>
  A text is the list of the bytes of its UTF-8 encoding, one \<open>char\<close> for
  each byte. The texts of the program are the literals of the source and
  what \<open>fs.readFile\<close> returns for the encoding \<open>utf8\<close>, and what the program does with
  them has the same result on the encoding: it splits at LF, joins, tests
  for ASCII prefixes, suffixes and substrings, trims, and splits at white
  space. For the last two the white space characters of the language are
  listed by their encodings: TAB, LF, VT, FF, CR, SPACE, U+00A0, U+1680,
  U+2000 to U+200A, U+2028, U+2029, U+202F, U+205F, U+3000 and U+FEFF (the
  classes WhiteSpace and LineTerminator, which both \<open>trim\<close> and the regular
  expression \<open>\s\<close> use).
\<close>

definition NL :: char where
  "NL = CHR 0x0A"

definition whiteSpace :: "string list" where
  "whiteSpace =
     [[CHR 0x09], [CHR 0x0A], [CHR 0x0B], [CHR 0x0C], [CHR 0x0D], [CHR 0x20],
      [CHR 0xC2, CHR 0xA0],
      [CHR 0xE1, CHR 0x9A, CHR 0x80],
      [CHR 0xE2, CHR 0x80, CHR 0x80], [CHR 0xE2, CHR 0x80, CHR 0x81],
      [CHR 0xE2, CHR 0x80, CHR 0x82], [CHR 0xE2, CHR 0x80, CHR 0x83],
      [CHR 0xE2, CHR 0x80, CHR 0x84], [CHR 0xE2, CHR 0x80, CHR 0x85],
      [CHR 0xE2, CHR 0x80, CHR 0x86], [CHR 0xE2, CHR 0x80, CHR 0x87],
      [CHR 0xE2, CHR 0x80, CHR 0x88], [CHR 0xE2, CHR 0x80, CHR 0x89],
      [CHR 0xE2, CHR 0x80, CHR 0x8A],
      [CHR 0xE2, CHR 0x80, CHR 0xA8], [CHR 0xE2, CHR 0x80, CHR 0xA9],
      [CHR 0xE2, CHR 0x80, CHR 0xAF],
      [CHR 0xE2, CHR 0x81, CHR 0x9F],
      [CHR 0xE3, CHR 0x80, CHR 0x80],
      [CHR 0xEF, CHR 0xBB, CHR 0xBF]]"

definition startsWith :: "string \<Rightarrow> string \<Rightarrow> bool" where
  "startsWith s p = (take (length p) s = p)"

definition endsWith :: "string \<Rightarrow> string \<Rightarrow> bool" where
  "endsWith s p = (length p \<le> length s \<and> drop (length s - length p) s = p)"

text \<open>\<open>s.includes(p)\<close>: \<open>p\<close> occurs in \<open>s\<close> as a contiguous substring.\<close>

fun includes_str :: "string \<Rightarrow> string \<Rightarrow> bool" where
  "includes_str [] p = (p = [])"
| "includes_str (c # cs) p = (startsWith (c # cs) p \<or> includes_str cs p)"

text \<open>\<open>s.split(c)\<close> for a one-character separator: never empty, \<open>''''\<close> gives \<open>['''']\<close>.\<close>

fun splitOn :: "char \<Rightarrow> string \<Rightarrow> string list" where
  "splitOn c [] = [[]]"
| "splitOn c (x # xs) =
     (if x = c then [] # splitOn c xs
      else (case splitOn c xs of
              [] \<Rightarrow> [[x]]
            | w # ws \<Rightarrow> (x # w) # ws))"

text \<open>\<open>xs.join(sep)\<close>.\<close>

fun join :: "string \<Rightarrow> string list \<Rightarrow> string" where
  "join sep [] = []"
| "join sep [x] = x"
| "join sep (x # y # ys) = x @ sep @ join sep (y # ys)"

text \<open>
  The white space character a text starts with and the one it ends with,
  if any. No encoding in the list is the start of another, and none is the
  end of another.
\<close>

definition leadingSpace :: "string \<Rightarrow> string option" where
  "leadingSpace s = find (startsWith s) whiteSpace"

definition trailingSpace :: "string \<Rightarrow> string option" where
  "trailingSpace s = find (endsWith s) whiteSpace"

function trimStart :: "string \<Rightarrow> string" where
  "trimStart s =
     (case leadingSpace s of None \<Rightarrow> s | Some w \<Rightarrow> trimStart (drop (length w) s))"
  by pat_completeness auto
termination
proof -
  have less: "length s - length w < length s" if "leadingSpace s = Some w" for s w
  proof -
    from that have "w \<in> set whiteSpace" and "startsWith s w"
      by (auto simp: leadingSpace_def find_Some_iff)
    then have "w \<noteq> []" and "take (length w) s = w"
      by (auto simp: whiteSpace_def startsWith_def)
    then show ?thesis by (cases s; cases w) auto
  qed
  show ?thesis by (relation "measure length") (simp_all add: less)
qed

function trimEnd :: "string \<Rightarrow> string" where
  "trimEnd s =
     (case trailingSpace s of None \<Rightarrow> s | Some w \<Rightarrow> trimEnd (take (length s - length w) s))"
  by pat_completeness auto
termination
proof -
  have less: "length s - length w < length s" if "trailingSpace s = Some w" for s w
  proof -
    from that have "w \<in> set whiteSpace" and "endsWith s w"
      by (auto simp: trailingSpace_def find_Some_iff)
    then have "w \<noteq> []" and "length w \<le> length s"
      by (auto simp: whiteSpace_def endsWith_def)
    then show ?thesis by (cases w) auto
  qed
  show ?thesis by (relation "measure length") (simp_all add: less)
qed

declare trimStart.simps [simp del] trimEnd.simps [simp del]

text \<open>\<open>s.trim()\<close>.\<close>

definition trim :: "string \<Rightarrow> string" where
  "trim s = trimEnd (trimStart s)"

text \<open>
  \<open>s.split(/\s+/)\<close>: the pieces between maximal runs of white space; a run at
  the start or the end leaves an empty piece there. \<open>cur\<close> is the piece being
  read, reversed.
\<close>

function splitWs :: "string \<Rightarrow> string \<Rightarrow> string list" where
  "splitWs cur [] = [rev cur]"
| "splitWs cur (c # cs) =
     (if leadingSpace (c # cs) \<noteq> None then rev cur # splitWs [] (trimStart (c # cs))
      else splitWs (c # cur) cs)"
  by pat_completeness auto
termination
proof -
  have le: "length (trimStart s) \<le> length s" for s
  proof (induction s rule: trimStart.induct)
    case (1 s)
    show ?case
      using 1 by (subst trimStart.simps) (auto split: option.splits intro: order_trans)
  qed
  have less: "length (trimStart s) < length s" if w: "leadingSpace s = Some w" for s w
  proof -
    from w have "w \<in> set whiteSpace" and "startsWith s w"
      by (auto simp: leadingSpace_def find_Some_iff)
    then have "w \<noteq> []" and "take (length w) s = w"
      by (auto simp: whiteSpace_def startsWith_def)
    then have "length (drop (length w) s) < length s" by (cases s) auto
    moreover have "trimStart s = trimStart (drop (length w) s)"
      using w by (subst trimStart.simps) simp
    ultimately show ?thesis using le [of "drop (length w) s"] by simp
  qed
  show ?thesis
    by (relation "measure (\<lambda>(cur, s). length s)") (auto dest: less)
qed

text \<open>Decimal rendering of a number in a template string.\<close>

definition digit :: "nat \<Rightarrow> char" where
  "digit d = char_of (48 + d)"

fun showNat :: "nat \<Rightarrow> string" where
  "showNat n = (if n < 10 then [digit n] else showNat (n div 10) @ [digit (n mod 10)])"

declare showNat.simps [simp del]

definition showInt :: "int \<Rightarrow> string" where
  "showInt i = (if i < 0 then CHR ''-'' # showNat (nat (- i)) else showNat (nat i))"

text \<open>\<open>xs.findIndex(P)\<close>; \<open>None\<close> stands for the result -1.\<close>

fun findIndex :: "('a \<Rightarrow> bool) \<Rightarrow> 'a list \<Rightarrow> nat option" where
  "findIndex P [] = None"
| "findIndex P (x # xs) =
     (if P x then Some 0
      else (case findIndex P xs of None \<Rightarrow> None | Some i \<Rightarrow> Some (Suc i)))"


section \<open>Apache httpd: the directive format (configMerger.mjs)\<close>

definition APACHE_USER_DIRECTIVES :: "string list" where
  "APACHE_USER_DIRECTIVES =
    [''ServerName'', ''ServerAdmin'', ''ServerRoot'', ''DocumentRoot'', ''Listen'',
     ''ErrorLog'', ''CustomLog'', ''LogLevel'', ''LogFormat'',
     ''SSLCertificateFile'', ''SSLCertificateKeyFile'', ''SSLCertificateChainFile'',
     ''SSLCACertificateFile'', ''ProxyPass'', ''ProxyPassReverse'',
     ''Redirect'', ''RedirectMatch'', ''Alias'', ''ScriptAlias'',
     ''Directory'', ''VirtualHost'', ''IfModule'', ''LoadModule'']"

definition APACHE_SECURITY_DIRECTIVES :: "string list" where
  "APACHE_SECURITY_DIRECTIVES =
    [''SSLProtocol'', ''SSLCipherSuite'', ''SSLHonorCipherOrder'',
     ''Header'', ''ServerTokens'', ''ServerSignature'', ''TraceEnable'',
     ''FileETag'', ''Timeout'', ''LimitRequestBody'', ''KeepAlive'']"

subsection \<open>The parsed document\<close>

text \<open>
  \<open>parseApacheDirective\<close> returns \<open>{name, value, fullLine}\<close>; the parser adds
  \<open>lineNum\<close> to it. The field \<open>value\<close> is written \<open>val\<close>.
\<close>

record parsed =
  name :: string
  val :: string
  fullLine :: string

record directive = parsed +
  lineNum :: nat

record module_entry =
  line :: string
  modLineNum :: nat

record block =
  content :: string
  lines :: "string list"
  startIndex :: nat
  endIndex :: nat

record apache_config =
  directives :: "directive list"
  modules :: "module_entry list"
  virtualHosts :: "block list"
  directories :: "block list"
  ifModules :: "block list"

record customizations =
  user_directives :: "directive list"
  user_virtualHosts :: "block list"
  user_directories :: "block list"
  user_modules :: "module_entry list"

text \<open>The lines the functions push on \<open>logs\<close>, by message.\<close>

datatype log =
    UserDirective string string
  | FoundVirtualHosts nat
  | UserDirectoryBlock
  | CustomModule string
  | SkippingSecurityDirective string
  | Replaced string
  | Added string

subsection \<open>parseApacheConfig\<close>

definition parseApacheDirective :: "string \<Rightarrow> parsed option" where
  "parseApacheDirective ln =
     (let trimmed = trim ln in
      if trimmed = [] \<or> startsWith trimmed ''#'' then None
      else (let parts = splitWs [] trimmed in
            if length parts < 1 then None
            else Some \<lparr> name = hd parts, val = join '' '' (tl parts), fullLine = ln \<rparr>))"

text \<open>
  The loop of \<open>extractApacheBlock\<close>: from index \<open>i\<close> with nesting depth
  \<open>depth\<close>, it returns the collected lines and the index it stopped at (the
  closing line, or the length of the text when the block is never closed).
\<close>

function extractLoop ::
  "string list \<Rightarrow> string \<Rightarrow> string \<Rightarrow> nat \<Rightarrow> int \<Rightarrow> string list \<Rightarrow> string list \<times> nat" where
  "extractLoop lns startTag endTag i depth blockLines =
     (if i < length lns \<and> depth > 0 then
        (let blockLines' = blockLines @ [lns ! i];
             trimmed = trim (lns ! i);
             depth1 = (if startsWith trimmed startTag then depth + 1 else depth);
             depth2 = (if startsWith trimmed endTag then depth1 - 1 else depth1)
         in if depth2 = 0 then (blockLines', i)
            else extractLoop lns startTag endTag (i + 1) depth2 blockLines')
      else (blockLines, i))"
  by pat_completeness auto
termination
  by (relation "measure (\<lambda>(lns, startTag, endTag, i, depth, blockLines). length lns - i)") auto

declare extractLoop.simps [simp del]

definition extractApacheBlock :: "string list \<Rightarrow> nat \<Rightarrow> string \<Rightarrow> string \<Rightarrow> block" where
  "extractApacheBlock lns start startTag endTag =
     (case extractLoop lns startTag endTag (start + 1) 1 [lns ! start] of
        (blockLines, i) \<Rightarrow>
          \<lparr> content = join [NL] blockLines, lines = blockLines,
            startIndex = start, endIndex = i \<rparr>)"

function parseLoop :: "string list \<Rightarrow> nat \<Rightarrow> apache_config \<Rightarrow> apache_config" where
  "parseLoop lns i config =
     (if i < length lns then
        (let ln = trim (lns ! i) in
         if ln = [] \<or> startsWith ln ''#'' then parseLoop lns (i + 1) config
         else if startsWith ln ''LoadModule'' then
           parseLoop lns (i + 1)
             (config\<lparr> modules := modules config @ [\<lparr> line = lns ! i, modLineNum = i + 1 \<rparr>] \<rparr>)
         else if startsWith ln ''<VirtualHost'' then
           (let b = extractApacheBlock lns i ''<VirtualHost'' ''</VirtualHost>'' in
            parseLoop lns (endIndex b + 1)
              (config\<lparr> virtualHosts := virtualHosts config @ [b] \<rparr>))
         else if startsWith ln ''<Directory'' then
           (let b = extractApacheBlock lns i ''<Directory'' ''</Directory>'' in
            parseLoop lns (endIndex b + 1)
              (config\<lparr> directories := directories config @ [b] \<rparr>))
         else if startsWith ln ''<IfModule'' then
           (let b = extractApacheBlock lns i ''<IfModule'' ''</IfModule>'' in
            parseLoop lns (endIndex b + 1)
              (config\<lparr> ifModules := ifModules config @ [b] \<rparr>))
         else
           (case parseApacheDirective (lns ! i) of
              None \<Rightarrow> parseLoop lns (i + 1) config
            | Some d \<Rightarrow>
                parseLoop lns (i + 1)
                  (config\<lparr> directives := directives config @
                     [\<lparr> name = name d, val = val d, fullLine = fullLine d, lineNum = i + 1 \<rparr>] \<rparr>)))
      else config)"
  by pat_completeness auto
termination
proof -
  have ge: "j \<le> snd (extractLoop lns s e j d bl)" for lns s e j d bl
  proof (induction lns s e j d bl rule: extractLoop.induct)
    case (1 lns startTag endTag i depth blockLines)
    show ?case
      using "1.IH" [OF _ refl refl refl refl]
      by (subst extractLoop.simps) (auto simp: Let_def split: if_splits)
  qed
  have adv: "i < endIndex (extractApacheBlock lns i s e)" for lns i s e
    using ge [of "i + 1" lns s e 1 "[lns ! i]"]
    by (auto simp: extractApacheBlock_def split: prod.splits)
  have less: "length lns - Suc (endIndex (extractApacheBlock lns i s e)) < length lns - i"
    if "i < length lns" for lns i s e
    using that adv [of i lns s e] by arith
  show ?thesis
    by (relation "measure (\<lambda>(lns, i, config). length lns - i)") (simp_all add: less)
qed

declare parseLoop.simps [simp del]

definition parseApacheConfig :: "string \<Rightarrow> apache_config" where
  "parseApacheConfig txt =
     parseLoop (splitOn NL txt) 0
       \<lparr> directives = [], modules = [], virtualHosts = [], directories = [], ifModules = [] \<rparr>"

subsection \<open>extractApacheUserSettings\<close>

definition hasUserContent :: "string \<Rightarrow> bool" where
  "hasUserContent c =
     list_ex (\<lambda>kw. includes_str c kw)
       [''ProxyPass'', ''Redirect'', ''Alias'', ''SSLCertificate'', ''Allow'', ''Deny'']"

definition isDefaultModule :: "string \<Rightarrow> bool" where
  "isDefaultModule ln =
     list_ex (\<lambda>m. includes_str ln m)
       [''mod_access_compat'', ''mod_actions'', ''mod_alias'', ''mod_allowmethods'',
        ''mod_auth_basic'', ''mod_authn_core'', ''mod_authn_file'', ''mod_authz_core'',
        ''mod_authz_groupfile'', ''mod_authz_host'', ''mod_authz_user'', ''mod_autoindex'',
        ''mod_dir'', ''mod_env'', ''mod_headers'', ''mod_include'', ''mod_log_config'',
        ''mod_mime'', ''mod_negotiation'', ''mod_setenvif'']"

definition extractApacheUserSettings :: "apache_config \<Rightarrow> log list \<Rightarrow> customizations \<times> log list" where
  "extractApacheUserSettings config logs =
     (let ds = filter (\<lambda>d. name d \<in> set APACHE_USER_DIRECTIVES) (directives config);
          dirs = filter (\<lambda>b. hasUserContent (content b)) (directories config);
          mods = filter (\<lambda>m. \<not> isDefaultModule (line m)) (modules config)
      in (\<lparr> user_directives = ds,
            user_virtualHosts = virtualHosts config,
            user_directories = dirs,
            user_modules = mods \<rparr>,
          logs @ map (\<lambda>d. UserDirective (name d) (val d)) ds
               @ [FoundVirtualHosts (length (virtualHosts config))]
               @ map (\<lambda>b. UserDirectoryBlock) dirs
               @ map (\<lambda>m. CustomModule (line m)) mods))"

subsection \<open>mergeApacheSettings\<close>

text \<open>
  One round of the \<open>forEach\<close> over the user directives, on the directive array
  of the merged document and the log.
\<close>

definition mergeUserDirective ::
  "directive \<Rightarrow> directive list \<times> log list \<Rightarrow> directive list \<times> log list" where
  "mergeUserDirective userDir st =
     (case st of (ds, logs) \<Rightarrow>
        if name userDir \<in> set APACHE_SECURITY_DIRECTIVES
        then (ds, logs @ [SkippingSecurityDirective (name userDir)])
        else (case findIndex (\<lambda>d. name d = name userDir) ds of
                Some existingIndex \<Rightarrow> (ds[existingIndex := userDir], logs @ [Replaced (name userDir)])
              | None \<Rightarrow> (ds @ [userDir], logs @ [Added (name userDir)])))"

text \<open>
  \<open>merged\<close> starts as \<open>JSON.parse(JSON.stringify(newConfig))\<close>, a copy with the
  same strings and numbers in every field.
\<close>

definition mergeApacheSettings ::
  "apache_config \<Rightarrow> customizations \<Rightarrow> log list \<Rightarrow> apache_config \<times> log list" where
  "mergeApacheSettings newConfig userCustomizations logs =
     (let merged = newConfig in
      case fold mergeUserDirective (user_directives userCustomizations) (directives merged, logs) of
        (ds, logs') \<Rightarrow>
          (merged\<lparr> directives := ds,
                   virtualHosts := virtualHosts merged @ user_virtualHosts userCustomizations,
                   directories := directories merged @ user_directories userCustomizations,
                   modules := modules merged @ user_modules userCustomizations \<rparr>,
           logs'))"

subsection \<open>buildApacheConfig\<close>

text \<open>\<open>now\<close> is the value of \<open>new Date().toISOString()\<close> at the call.\<close>

definition buildApacheConfig :: "apache_config \<Rightarrow> string \<Rightarrow> string" where
  "buildApacheConfig config now =
     join [NL]
       ([''# ============================================================================'',
         ''# Apache HTTP Server Configuration - Merged by Upgrade Tool'',
         ''# Generated: '' @ now,
         ''# ============================================================================'',
         []]
        @ (if length (modules config) > 0
           then [''# Load Modules''] @ map line (modules config) @ [[]]
           else [])
        @ (if length (directives config) > 0
           then [''# Server Configuration''] @ map fullLine (directives config) @ [[]]
           else [])
        @ (if length (ifModules config) > 0
           then [''# Conditional Configuration''] @ map content (ifModules config) @ [[]]
           else [])
        @ (if length (directories config) > 0
           then [''# Directory Configuration''] @ map content (directories config) @ [[]]
           else [])
        @ (if length (virtualHosts config) > 0
           then [''# Virtual Hosts''] @ map content (virtualHosts config) @ [[]]
           else []))"

subsection \<open>Lines of a text and of a parsed document\<close>

text \<open>The parser's test for a line it passes over.\<close>

definition blankOrComment :: "string \<Rightarrow> bool" where
  "blankOrComment ln = (trim ln = [] \<or> startsWith (trim ln) ''#'')"

text \<open>
  The lines of the source text a parsed document holds, by section, in the
  order in which \<open>buildApacheConfig\<close> writes the sections.
\<close>

definition moduleLines :: "apache_config \<Rightarrow> string list" where
  "moduleLines config = map line (modules config)"

definition directiveLines :: "apache_config \<Rightarrow> string list" where
  "directiveLines config = map fullLine (directives config)"

definition linesOfBlocks :: "block list \<Rightarrow> string list" where
  "linesOfBlocks bs = concat (map lines bs)"

definition recordedLines :: "apache_config \<Rightarrow> string list" where
  "recordedLines config =
     moduleLines config @ directiveLines config @ linesOfBlocks (ifModules config) @
     linesOfBlocks (directories config) @ linesOfBlocks (virtualHosts config)"

text \<open>
  A section of the serialized text: nothing when it has no line, else its
  title, its lines and an empty line.
\<close>

definition titled :: "string \<Rightarrow> string list \<Rightarrow> string list" where
  "titled title ls = (if ls = [] then [] else [title] @ ls @ [[]])"

text \<open>A block as \<open>extractApacheBlock\<close> builds it: its text is its lines, joined.\<close>

definition blockTextOk :: "block \<Rightarrow> bool" where
  "blockTextOk b = (lines b \<noteq> [] \<and> content b = join [NL] (lines b))"

text \<open>A block taken whole from the lines \<open>lns\<close>: a run of consecutive lines.\<close>

definition wholeBlock :: "string list \<Rightarrow> block \<Rightarrow> bool" where
  "wholeBlock lns b = (blockTextOk b \<and> sublist (lines b) lns)"

text \<open>
  What holds of the document when the parser has read the first \<open>i\<close> lines
  of a text: every section is a subsequence of these lines, the lines
  among them that are neither blank nor comments are all recorded, each as
  often as it occurs, nothing is recorded more often than it occurs, and
  every block is taken whole from these lines.
\<close>

definition parsedUpTo :: "string list \<Rightarrow> nat \<Rightarrow> apache_config \<Rightarrow> bool" where
  "parsedUpTo lns i config =
     (subseq (moduleLines config) (take i lns) \<and>
      subseq (directiveLines config) (take i lns) \<and>
      subseq (linesOfBlocks (ifModules config)) (take i lns) \<and>
      subseq (linesOfBlocks (directories config)) (take i lns) \<and>
      subseq (linesOfBlocks (virtualHosts config)) (take i lns) \<and>
      mset (filter (\<lambda>l. \<not> blankOrComment l) (take i lns)) \<subseteq># mset (recordedLines config) \<and>
      mset (recordedLines config) \<subseteq># mset (take i lns) \<and>
      list_all (wholeBlock (take i lns))
        (ifModules config @ directories config @ virtualHosts config))"

section \<open>Files, paths and errors\<close>

text \<open>
  A path is the list of its segments, already normalised: \<open>path.dirname\<close>
  drops the last segment and \<open>path.join\<close> appends segments. The file system
  maps the path of a file to its text, that is to what \<open>fs.readFile\<close>
  returns for it with the encoding \<open>utf8\<close>, in UTF-8. For a file whose
  bytes are valid UTF-8 these are the bytes of the file; bytes that are
  not are read as U+FFFD, and the file stands here with the text that is
  read from it. \<open>writeFile\<close> stores the encoding of the text it is
  given and \<open>copy\<close> copies the bytes, so a file written is read as the text
  written and a copy is read as its source is. Reading or copying a file
  that does not exist throws \<open>ENOENT\<close>; a write always succeeds and
  \<open>ensureDir\<close> changes no file. \<open>copy\<close> is the one of fs-extra, which
  refuses to copy a file onto itself.
\<close>

type_synonym path = "string list"

type_synonym fs = "path \<rightharpoonup> string"

datatype js_error =
    ENOENT path
  | Error string
  | ReferenceError string

definition dirname :: "path \<Rightarrow> path" where
  "dirname p = butlast p"

text \<open>\<open>p + ext\<close>, the string appended to the last segment.\<close>

definition addSuffix :: "path \<Rightarrow> string \<Rightarrow> path" where
  "addSuffix p ext = (case rev p of [] \<Rightarrow> [ext] | x # xs \<Rightarrow> rev xs @ [x @ ext])"

definition readFile :: "path \<Rightarrow> fs \<Rightarrow> js_error + string" where
  "readFile p files = (case files p of None \<Rightarrow> Inl (ENOENT p) | Some c \<Rightarrow> Inr c)"

definition writeFile :: "path \<Rightarrow> string \<Rightarrow> fs \<Rightarrow> fs" where
  "writeFile p c files = files(p \<mapsto> c)"

definition copy :: "path \<Rightarrow> path \<Rightarrow> fs \<Rightarrow> js_error + fs" where
  "copy src dest files =
     (case files src of
        None \<Rightarrow> Inl (ENOENT src)
      | Some c \<Rightarrow>
          if src = dest then Inl (Error ''Source and destination must not be the same.'')
          else Inr (files(dest \<mapsto> c)))"


section \<open>The diff report (generateDiffReport)\<close>

text \<open>
  The rule character of the report, U+2550, as the three bytes the file
  holds for it in UTF-8.
\<close>

definition BOX :: string where
  "BOX = [CHR 0xE2, CHR 0x95, CHR 0x90]"

definition repeat :: "string \<Rightarrow> nat \<Rightarrow> string" where
  "repeat s n = concat (replicate n s)"

record changes =
  added :: "(nat \<times> string) list"
  removed :: "(nat \<times> string) list"
  modified :: "(nat \<times> string \<times> string) list"

text \<open>\<open>xs[i] || ''''\<close>: the empty string past the end.\<close>

definition lineAt :: "string list \<Rightarrow> nat \<Rightarrow> string" where
  "lineAt xs i = (if i < length xs then xs ! i else [])"

text \<open>One round of the loop over the line indices.\<close>

definition diffStep :: "string list \<Rightarrow> string list \<Rightarrow> nat \<Rightarrow> changes \<Rightarrow> changes" where
  "diffStep oldLines newLines i ch =
     (let oldLine = lineAt oldLines i; newLine = lineAt newLines i in
      if oldLine \<noteq> newLine then
        (if oldLine = [] \<and> newLine \<noteq> [] then ch\<lparr> added := added ch @ [(i + 1, newLine)] \<rparr>
         else if oldLine \<noteq> [] \<and> newLine = [] then ch\<lparr> removed := removed ch @ [(i + 1, oldLine)] \<rparr>
         else ch\<lparr> modified := modified ch @ [(i + 1, oldLine, newLine)] \<rparr>)
      else ch)"

definition diffChanges :: "string list \<Rightarrow> string list \<Rightarrow> changes" where
  "diffChanges oldLines newLines =
     fold (diffStep oldLines newLines) [0 ..< max (length oldLines) (length newLines)]
       \<lparr> added = [], removed = [], modified = [] \<rparr>"

text \<open>
  The lines of the report after its first three: the summary, the three
  sections and the statistics.
\<close>

definition reportBody :: "string list \<Rightarrow> string list \<Rightarrow> string list" where
  "reportBody oldLines newLines =
     (let ch = diffChanges oldLines newLines in
      [repeat BOX 100,
       [],
       ''SUMMARY:'',
       repeat ''-'' 100,
       ''  Old Configuration Lines: '' @ showNat (length oldLines),
       ''  New Configuration Lines: '' @ showNat (length newLines),
       ''  Line Difference: '' @ showInt (int (length newLines) - int (length oldLines)),
       []]
      @ (if length (added ch) > 0
         then [''ADDED LINES:'', repeat ''-'' 100]
              @ map (\<lambda>(n, c). ''  [Line '' @ showNat n @ ''] + '' @ c) (added ch) @ [[]]
         else [])
      @ (if length (removed ch) > 0
         then [''REMOVED LINES:'', repeat ''-'' 100]
              @ map (\<lambda>(n, c). ''  [Line '' @ showNat n @ ''] - '' @ c) (removed ch) @ [[]]
         else [])
      @ (if length (modified ch) > 0
         then [''MODIFIED LINES:'', repeat ''-'' 100]
              @ concat (map (\<lambda>(n, old, new).
                  [''  [Line '' @ showNat n @ '']'', ''    OLD: '' @ old, ''    NEW: '' @ new, []])
                  (take 50 (modified ch)))
              @ (if length (modified ch) > 50
                 then [''  ... and '' @ showNat (length (modified ch) - 50) @ '' more modified lines'', []]
                 else [])
         else [])
      @ [repeat BOX 100,
         ''CHANGE STATISTICS:'',
         repeat ''-'' 100,
         ''  Lines Added:    '' @ showNat (length (added ch)),
         ''  Lines Removed:  '' @ showNat (length (removed ch)),
         ''  Lines Modified: '' @ showNat (length (modified ch)),
         ''  Total Changes:  '' @
           showNat (length (added ch) + length (removed ch) + length (modified ch)),
         repeat BOX 100])"

text \<open>
  The text written to the report file; \<open>now\<close> is the value of
  \<open>new Date().toISOString()\<close> when the report is generated.
\<close>

definition diffReport :: "string \<Rightarrow> string \<Rightarrow> string \<Rightarrow> string" where
  "diffReport oldContent newContent now =
     join [NL]
       ([repeat BOX 100,
         ''                    CONFIGURATION DIFF REPORT'',
         ''                    Generated: '' @ now]
        @ reportBody (splitOn NL oldContent) (splitOn NL newContent))"

definition generateDiffReport :: "string \<Rightarrow> string \<Rightarrow> path \<Rightarrow> string \<Rightarrow> fs \<Rightarrow> fs" where
  "generateDiffReport oldContent newContent reportPath now files =
     writeFile reportPath (diffReport oldContent newContent now) files"


section \<open>mergeApacheConfig\<close>

text \<open>
  The template literal starts with a line break and ends with one after its
  last line.
\<close>

definition APACHE_VAPT_CONFIG :: string where
  \<open>APACHE_VAPT_CONFIG =
     [NL] @ concat (map (\<lambda>l. l @ [NL])
       [''# ============================================================================'',
        ''# APACHE HTTPD - VAPT SECURITY HARDENING'',
        ''# Auto-generated during upgrade - DO NOT MODIFY MANUALLY'',
        ''# ============================================================================'',
        [],
        ''# 1. Hide Apache Version and OS Information'',
        ''ServerTokens Prod'',
        ''ServerSignature Off'',
        [],
        ''# 2. Disable HTTP TRACE Method (Prevents XST attacks)'',
        ''TraceEnable Off'',
        [],
        ''# 3. Clickjacking Protection'',
        ''Header always append X-Frame-Options SAMEORIGIN'',
        [],
        ''# 4. XSS Protection'',
        ''Header set X-XSS-Protection '' @ [CHR 0x22] @ ''1; mode=block'' @ [CHR 0x22],
        [],
        ''# 5. MIME Type Sniffing Protection'',
        ''Header set X-Content-Type-Options '' @ [CHR 0x22] @ ''nosniff'' @ [CHR 0x22],
        [],
        ''# 6. Referrer Policy'',
        ''Header set Referrer-Policy '' @ [CHR 0x22] @ ''strict-origin-when-cross-origin'' @ [CHR 0x22],
        [],
        ''# 7. Content Security Policy (CSP)'',
        ''Header set Content-Security-Policy '' @ [CHR 0x22] @ ''default-src '' @ [CHR 0x27] @ ''self'' @ [CHR 0x27] @ ''; script-src '' @ [CHR 0x27] @ ''self'' @ [CHR 0x27] @ '' '' @ [CHR 0x27] @ ''unsafe-inline'' @ [CHR 0x27] @ ''; style-src '' @ [CHR 0x27] @ ''self'' @ [CHR 0x27] @ '' '' @ [CHR 0x27] @ ''unsafe-inline'' @ [CHR 0x27] @ [CHR 0x22],
        [],
        ''# 8. HTTP Strict Transport Security (HSTS) - Enable if using HTTPS'',
        ''# Header always set Strict-Transport-Security '' @ [CHR 0x22] @ ''max-age=31536000; includeSubDomains; preload'' @ [CHR 0x22],
        [],
        ''# 9. Remove ETag (Information Disclosure)'',
        ''FileETag None'',
        [],
        ''# 10. Limit Request Size (DoS Protection)'',
        ''LimitRequestBody 10485760'',
        [],
        ''# 11. Timeout Configuration (DoS Protection)'',
        ''Timeout 60'',
        ''KeepAlive On'',
        ''MaxKeepAliveRequests 100'',
        ''KeepAliveTimeout 5'',
        [],
        ''# 12. Disable Directory Listing'',
        ''<Directory />'',
        ''    Options -Indexes'',
        ''    AllowOverride None'',
        ''    Require all denied'',
        ''</Directory>'',
        [],
        ''# 13. SSL/TLS Security (If SSL is enabled)'',
        ''<IfModule ssl_module>'',
        ''    # Use only TLS 1.2 and 1.3'',
        ''    SSLProtocol -all +TLSv1.2 +TLSv1.3'',
        [],
        ''    # Strong Cipher Suite'',
        ''    SSLCipherSuite ECDHE-ECDSA-AES128-GCM-SHA256:ECDHE-RSA-AES128-GCM-SHA256:ECDHE-ECDSA-AES256-GCM-SHA384:ECDHE-RSA-AES256-GCM-SHA384:ECDHE-ECDSA-CHACHA20-POLY1305:ECDHE-RSA-CHACHA20-POLY1305:DHE-RSA-AES128-GCM-SHA256:DHE-RSA-AES256-GCM-SHA384'',
        [],
        ''    # Prefer Server Ciphers'',
        ''    SSLHonorCipherOrder On'',
        [],
        ''    # Disable SSL Compression (CRIME attack)'',
        ''    SSLCompression Off'',
        [],
        ''    # OCSP Stapling'',
        ''    SSLUseStapling On'',
        ''    SSLStaplingCache '' @ [CHR 0x22] @ ''shmcb:logs/ssl_stapling(32768)'' @ [CHR 0x22],
        ''</IfModule>'',
        [],
        ''# 14. Disable Unnecessary Modules (Uncomment to disable)'',
        ''# LoadModule autoindex_module modules/mod_autoindex.so'',
        ''# LoadModule status_module modules/mod_status.so'',
        ''# LoadModule info_module modules/mod_info.so'',
        [],
        ''# 15. Log Security Events'',
        ''LogLevel warn ssl:warn'',
        [],
        ''// ADD these missing items to APACHE_VAPT_CONFIG in configMerger.mjs (around line 35)'',
        [],
        ''# 16. Secure Cookie Configuration (MISSING - Critical from PDF)'',
        ''Header edit Set-Cookie ^(.*)$ $1;HttpOnly;Secure'',
        ''Header always edit Set-Cookie (.*) '' @ [CHR 0x22] @ ''$1; SameSite=Strict'' @ [CHR 0x22],
        [],
        ''# 17. Disable HTTP/1.0 Protocol (MISSING)'',
        ''Protocols h2 http/1.1'',
        [],
        ''# 18. Request Timeout (adjust from current generic Timeout)'',
        ''RequestReadTimeout header=20-40,MinRate=500 body=20,MinRate=500'',
        [],
        ''# ============================================================================'',
        ''# END OF VAPT SECURITY HARDENING'',
        ''# ============================================================================''])\<close>

text \<open>
  The hardening step of the directive format: the text appended to the
  serialized document.
\<close>

definition VAPT_INCLUDE :: string where
  "VAPT_INCLUDE =
     [NL, NL] @ ''# Include VAPT Security Hardening'' @ [NL] @
     ''Include conf/extra/httpd-security-vapt.conf'' @ [NL]"

text \<open>
  What a merge returns: the object of \<open>mergeApacheConfig\<close> (\<open>merged: true\<close>
  with the two counts and the two paths), the object of the fallback
  (\<open>merged: false\<close> with the message and the path of the saved old file),
  or the object of the Tomcat or JDK merge, of which only the truth of its
  \<open>merged\<close> field is kept.
\<close>

datatype merge_result =
    ApacheResult nat nat path path
  | FallbackResult js_error path
  | OtherResult bool

fun merged :: "merge_result \<Rightarrow> bool" where
  "merged (ApacheResult userSettings vhosts diffReportPath vaptConfig) = True"
| "merged (FallbackResult e backupPath) = False"
| "merged (OtherResult b) = b"

text \<open>
  \<open>mergeApacheConfig\<close> on the file system. \<open>nowBuild\<close> and \<open>nowDiff\<close> are the
  two clock readings of the call (the header of the merged file, the diff
  report). An exception leaves the files as they were: only the two reads
  can throw, and they come first. The lines pushed on \<open>logs\<close> are not part of
  the result.
\<close>

definition mergeApacheConfig ::
  "path \<Rightarrow> path \<Rightarrow> path \<Rightarrow> string \<Rightarrow> string \<Rightarrow> fs \<Rightarrow> (js_error + merge_result) \<times> fs" where
  "mergeApacheConfig oldConfPath newConfPath outputPath nowBuild nowDiff files =
     (case readFile oldConfPath files of
        Inl e \<Rightarrow> (Inl e, files)
      | Inr oldContent \<Rightarrow>
     (case readFile newConfPath files of
        Inl e \<Rightarrow> (Inl e, files)
      | Inr newContent \<Rightarrow>
          (let oldConfig = parseApacheConfig oldContent;
               newConfig = parseApacheConfig newContent;
               userCustomizations = fst (extractApacheUserSettings oldConfig []);
               mergedConfig = fst (mergeApacheSettings newConfig userCustomizations []);
               mergedContent = buildApacheConfig mergedConfig nowBuild;
               vaptPath = dirname outputPath @ [''conf'', ''extra'', ''httpd-security-vapt.conf''];
               files1 = writeFile vaptPath APACHE_VAPT_CONFIG files;
               finalContent = mergedContent @ VAPT_INCLUDE;
               files2 = writeFile outputPath finalContent files1;
               files3 = generateDiffReport oldContent finalContent
                          (addSuffix outputPath ''.diff.txt'') nowDiff files2
           in (Inr (ApacheResult (length (user_directives userCustomizations))
                      (length (user_virtualHosts userCustomizations))
                      (addSuffix outputPath ''.diff.txt'') vaptPath),
               files3))))"


section \<open>smartMergeConfiguration and its caller\<close>

definition toLowerChar :: "char \<Rightarrow> char" where
  "toLowerChar c =
     (if of_char c \<ge> (65 :: nat) \<and> of_char c \<le> (90 :: nat) then char_of (of_char c + (32 :: nat)) else c)"

text \<open>
  \<open>s.toLowerCase()\<close>: the letters A to Z, and the two characters outside
  ASCII whose lower case holds an ASCII letter, U+212A (KELVIN SIGN, to
  \<open>k\<close>) and U+0130 (to \<open>i\<close> and U+0307). Every other character stays as
  it is here; the language replaces some of them by characters outside
  ASCII, and the result is only searched for ASCII names.
\<close>

fun toLowerCase :: "string \<Rightarrow> string" where
  "toLowerCase [] = []"
| "toLowerCase (c # cs) =
     (if startsWith (c # cs) [CHR 0xE2, CHR 0x84, CHR 0xAA] then CHR ''k'' # toLowerCase (drop 2 cs)
      else if startsWith (c # cs) [CHR 0xC4, CHR 0xB0]
        then [CHR ''i'', CHR 0xCC, CHR 0x87] @ toLowerCase (drop 1 cs)
      else toLowerChar c # toLowerCase cs)"

text \<open>
  What the call meets outside the repository's own code: the services that
  \<open>detectAndStopServices\<close> reports stopped (it catches every exception of its
  shell commands), the two clock readings, and the Tomcat and JDK merges,
  which run the XML library and the JDK's tools; each of the two takes the
  old, new and output path and the files and ends with a result or an
  exception, and with the files as it left them.
\<close>

record environment =
  stopped :: "string list"
  clockBuild :: string
  clockDiff :: string
  mergeTomcatConfig :: "path \<Rightarrow> path \<Rightarrow> path \<Rightarrow> fs \<Rightarrow> (js_error + merge_result) \<times> fs"
  mergeJDKConfig :: "path \<Rightarrow> path \<Rightarrow> fs \<Rightarrow> (js_error + merge_result) \<times> fs"

text \<open>
  \<open>mergeTomcatConfig\<close> as the repository has it, for two files the XML
  library parses. After the two reads and the work on the parsed documents
  it calls \<open>apply3DSpaceVAPT\<close>, whose first statement calls \<open>logStep\<close>; the
  module \<open>configMerger.mjs\<close> neither defines nor imports a function of
  that name, so the call throws a \<open>ReferenceError\<close>, before anything is
  written.
\<close>

definition mergeTomcatConfig_repo ::
  "path \<Rightarrow> path \<Rightarrow> path \<Rightarrow> fs \<Rightarrow> (js_error + merge_result) \<times> fs" where
  "mergeTomcatConfig_repo oldXmlPath newXmlPath outputPath files =
     (case readFile oldXmlPath files of
        Inl e \<Rightarrow> (Inl e, files)
      | Inr oldXml \<Rightarrow>
          (case readFile newXmlPath files of
             Inl e \<Rightarrow> (Inl e, files)
           | Inr newXml \<Rightarrow> (Inl (ReferenceError ''logStep is not defined''), files)))"

text \<open>The body of the \<open>try\<close> block after the services were stopped.\<close>

definition toolMerge ::
  "string \<Rightarrow> path \<Rightarrow> path \<Rightarrow> path \<Rightarrow> environment \<Rightarrow> fs \<Rightarrow> (js_error + merge_result) \<times> fs" where
  "toolMerge toolType oldConfigPath newConfigPath outputPath env files =
     (let toolLower = toLowerCase toolType in
      if includes_str toolLower ''httpd'' \<or> includes_str toolLower ''apache'' then
        mergeApacheConfig oldConfigPath newConfigPath outputPath (clockBuild env) (clockDiff env) files
      else if includes_str toolLower ''tomcat'' \<or> includes_str toolLower ''tomee'' then
        mergeTomcatConfig env oldConfigPath newConfigPath outputPath files
      else if includes_str toolLower ''jdk'' \<or> includes_str toolLower ''java'' then
        mergeJDKConfig env oldConfigPath newConfigPath files
      else (Inl (Error (''Unsupported tool type: '' @ toolType)), files))"

text \<open>
  The result carries the stopped services beside the merge's object; the
  object of the fallback has no such field. In the \<open>catch\<close> block the two copies run in their own \<open>try\<close>; when one of them
  throws, the first exception is thrown again.
\<close>

definition smartMergeConfiguration ::
  "string \<Rightarrow> path \<Rightarrow> path \<Rightarrow> path \<Rightarrow> environment \<Rightarrow> fs \<Rightarrow>
     (js_error + merge_result \<times> string list option) \<times> fs" where
  "smartMergeConfiguration toolType oldConfigPath newConfigPath outputPath env files =
     (case toolMerge toolType oldConfigPath newConfigPath outputPath env files of
        (Inr result, files1) \<Rightarrow> (Inr (result, Some (stopped env)), files1)
      | (Inl error, files1) \<Rightarrow>
          (case copy newConfigPath outputPath files1 of
             Inl fallbackError \<Rightarrow> (Inl error, files1)
           | Inr files2 \<Rightarrow>
               (case copy oldConfigPath (addSuffix outputPath ''.old-backup'') files2 of
                  Inl fallbackError \<Rightarrow> (Inl error, files2)
                | Inr files3 \<Rightarrow>
                    (Inr (FallbackResult error (addSuffix outputPath ''.old-backup''), None), files3))))"

text \<open>
  The body of the loop of \<open>comprehensivePreserveHTTPD_SECURE\<close> for an item of
  type \<open>merge\<close> (\<open>conf/httpd.conf\<close>, critical, and \<open>conf/3dx.conf\<close>, not
  critical), on the three counters. \<open>Inl\<close> is the exception that leaves the
  function and fails the upgrade.
\<close>

text \<open>\<open>error.code || error.message\<close>.\<close>

fun codeOrMessage :: "js_error \<Rightarrow> string" where
  "codeOrMessage (ENOENT p) = ''ENOENT''"
| "codeOrMessage (Error m) = m"
| "codeOrMessage (ReferenceError m) = m"

record counters =
  preservedCount :: nat
  mergedCount :: nat
  skippedCount :: nat

definition preserveMergeItem ::
  "path \<Rightarrow> path \<Rightarrow> path \<Rightarrow> bool \<Rightarrow> environment \<Rightarrow> counters \<Rightarrow> fs \<Rightarrow> (js_error + counters) \<times> fs" where
  "preserveMergeItem oldHttpd newHttpd itemPath critical env cnt files =
     (let sourcePath = oldHttpd @ itemPath; targetPath = newHttpd @ itemPath in
      if files sourcePath = None then (Inr (cnt\<lparr> skippedCount := skippedCount cnt + 1 \<rparr>), files)
      else
        (case smartMergeConfiguration ''httpd'' sourcePath targetPath targetPath env files of
           (Inr (mergeResult, services), files1) \<Rightarrow>
             if merged mergeResult
             then (Inr (cnt\<lparr> mergedCount := mergedCount cnt + 1 \<rparr>), files1)
             else (Inr (cnt\<lparr> preservedCount := preservedCount cnt + 1 \<rparr>), files1)
         | (Inl error, files1) \<Rightarrow>
             if critical
             then (Inl (Error (''Failed to preserve critical item: '' @ join ''/'' itemPath @
                              '' ('' @ codeOrMessage error @ '')'')), files1)
             else (Inr (cnt\<lparr> skippedCount := skippedCount cnt + 1 \<rparr>), files1)))"

section \<open>The upgrade request (server.mjs)\<close>



























section \<open>The directive-format merge on shared arrays\<close>

text \<open>
  In the program a parsed document is an object with five arrays, and the
  merge works on references. The directive, module and block objects are
  never written after the parser built them, so they stay values here; the
  arrays are written (index assignment, \<open>push\<close>), so they live in a store,
  one list of arrays per element type, and a document holds the addresses
  of its arrays. A new array gets the next free address.
\<close>

record store =
  dirArrays :: "directive list list"
  modArrays :: "module_entry list list"
  blkArrays :: "block list list"

record config_ref =
  directives_at :: nat
  modules_at :: nat
  virtualHosts_at :: nat
  directories_at :: nat
  ifModules_at :: nat

record customizations_ref =
  user_directives_at :: nat
  user_virtualHosts_at :: nat
  user_directories_at :: nat
  user_modules_at :: nat

text \<open>The document and the customizations a reference stands for in a store.\<close>

definition loadConfig :: "store \<Rightarrow> config_ref \<Rightarrow> apache_config" where
  "loadConfig s c =
     \<lparr> directives = dirArrays s ! directives_at c,
       modules = modArrays s ! modules_at c,
       virtualHosts = blkArrays s ! virtualHosts_at c,
       directories = blkArrays s ! directories_at c,
       ifModules = blkArrays s ! ifModules_at c \<rparr>"

definition loadCustomizations :: "store \<Rightarrow> customizations_ref \<Rightarrow> customizations" where
  "loadCustomizations s u =
     \<lparr> user_directives = dirArrays s ! user_directives_at u,
       user_virtualHosts = blkArrays s ! user_virtualHosts_at u,
       user_directories = blkArrays s ! user_directories_at u,
       user_modules = modArrays s ! user_modules_at u \<rparr>"

text \<open>All arrays of a document are allocated.\<close>

definition validConfig :: "store \<Rightarrow> config_ref \<Rightarrow> bool" where
  "validConfig s c =
     (directives_at c < length (dirArrays s) \<and> modules_at c < length (modArrays s) \<and>
      virtualHosts_at c < length (blkArrays s) \<and> directories_at c < length (blkArrays s) \<and>
      ifModules_at c < length (blkArrays s))"

text \<open>
  \<open>extractApacheUserSettings\<close>: the object literal allocates four empty
  arrays; the user directives, Directory blocks and modules are pushed on
  three of them, and the field \<open>virtualHosts\<close> is then assigned the array of
  the old document itself.
\<close>

definition extractApacheUserSettingsS :: "store \<Rightarrow> config_ref \<Rightarrow> store \<times> customizations_ref" where
  "extractApacheUserSettingsS s config =
     (let d = length (dirArrays s); m = length (modArrays s); b = length (blkArrays s);
          s1 = s\<lparr> dirArrays := dirArrays s @ [[]],
                  blkArrays := blkArrays s @ [[], []],
                  modArrays := modArrays s @ [[]] \<rparr>;
          s2 = s1\<lparr> dirArrays := (dirArrays s1)[d := dirArrays s1 ! d @
                   filter (\<lambda>x. name x \<in> set APACHE_USER_DIRECTIVES)
                     (dirArrays s1 ! directives_at config)] \<rparr>;
          s3 = s2\<lparr> blkArrays := (blkArrays s2)[b + 1 := blkArrays s2 ! (b + 1) @
                   filter (\<lambda>x. hasUserContent (content x))
                     (blkArrays s2 ! directories_at config)] \<rparr>;
          s4 = s3\<lparr> modArrays := (modArrays s3)[m := modArrays s3 ! m @
                   filter (\<lambda>x. \<not> isDefaultModule (line x))
                     (modArrays s3 ! modules_at config)] \<rparr>
      in (s4, \<lparr> user_directives_at = d,
                user_virtualHosts_at = virtualHosts_at config,
                user_directories_at = b + 1,
                user_modules_at = m \<rparr>))"

text \<open>
  One round of the loop of \<open>mergeApacheSettings\<close> on the directive array at
  address \<open>a\<close>.
\<close>

definition mergeUserDirectiveS :: "nat \<Rightarrow> directive \<Rightarrow> store \<Rightarrow> store" where
  "mergeUserDirectiveS a userDir s =
     (if name userDir \<in> set APACHE_SECURITY_DIRECTIVES then s
      else (case findIndex (\<lambda>d. name d = name userDir) (dirArrays s ! a) of
              Some existingIndex \<Rightarrow>
                s\<lparr> dirArrays := (dirArrays s)[a := (dirArrays s ! a)[existingIndex := userDir]] \<rparr>
            | None \<Rightarrow>
                s\<lparr> dirArrays := (dirArrays s)[a := dirArrays s ! a @ [userDir]] \<rparr>))"

text \<open>
  \<open>mergeApacheSettings\<close>: \<open>JSON.parse(JSON.stringify(newConfig))\<close> allocates
  five arrays with the elements of the new document's; the loop and the
  three \<open>push\<close> calls write to them.
\<close>

definition mergeApacheSettingsS ::
  "store \<Rightarrow> config_ref \<Rightarrow> customizations_ref \<Rightarrow> store \<times> config_ref" where
  "mergeApacheSettingsS s newConfig userCustomizations =
     (let d = length (dirArrays s); m = length (modArrays s); b = length (blkArrays s);
          merged = \<lparr> directives_at = d, modules_at = m, virtualHosts_at = b,
                     directories_at = b + 1, ifModules_at = b + 2 \<rparr>;
          s1 = s\<lparr> dirArrays := dirArrays s @ [dirArrays s ! directives_at newConfig],
                  modArrays := modArrays s @ [modArrays s ! modules_at newConfig],
                  blkArrays := blkArrays s @
                    [blkArrays s ! virtualHosts_at newConfig,
                     blkArrays s ! directories_at newConfig,
                     blkArrays s ! ifModules_at newConfig] \<rparr>;
          s2 = fold (mergeUserDirectiveS d) (dirArrays s1 ! user_directives_at userCustomizations) s1;
          s3 = s2\<lparr> blkArrays := (blkArrays s2)[b := blkArrays s2 ! b @
                   blkArrays s2 ! user_virtualHosts_at userCustomizations] \<rparr>;
          s4 = s3\<lparr> blkArrays := (blkArrays s3)[b + 1 := blkArrays s3 ! (b + 1) @
                   blkArrays s3 ! user_directories_at userCustomizations] \<rparr>;
          s5 = s4\<lparr> modArrays := (modArrays s4)[m := modArrays s4 ! m @
                   modArrays s4 ! user_modules_at userCustomizations] \<rparr>
      in (s5, merged))"

section \<open>The XML format: parsed documents as objects on a heap\<close>

text \<open>
  The XML parser returns nested objects: an attribute \<open>@_name\<close> is a string
  property, a child element is an object, or an array of objects when the
  element occurs more than once. The two \<open>apply\<close> functions write to these
  objects in place, and they store references to objects of one document in
  another, so objects and arrays live on a heap and a value is a string,
  \<open>undefined\<close> or a reference. An object keeps its properties in the order
  they were added.
\<close>

datatype jsval = Undefined | Str string | Ref nat

datatype cell = Obj "(string \<times> jsval) list" | Arr "jsval list"

type_synonym heap = "cell list"

definition truthy :: "jsval \<Rightarrow> bool" where
  "truthy v = (case v of Undefined \<Rightarrow> False | Str s \<Rightarrow> s \<noteq> [] | Ref a \<Rightarrow> True)"

definition lookup :: "(string \<times> jsval) list \<Rightarrow> string \<Rightarrow> jsval" where
  "lookup kvs k = (case map_of kvs k of None \<Rightarrow> Undefined | Some v \<Rightarrow> v)"

text \<open>\<open>v[k]\<close>; \<open>None\<close> is the TypeError of reading a property of \<open>undefined\<close>.\<close>

definition getProp :: "heap \<Rightarrow> jsval \<Rightarrow> string \<Rightarrow> jsval option" where
  "getProp h v k =
     (case v of
        Undefined \<Rightarrow> None
      | Str s \<Rightarrow> Some Undefined
      | Ref a \<Rightarrow> (case h ! a of Obj kvs \<Rightarrow> Some (lookup kvs k) | Arr xs \<Rightarrow> Some Undefined))"

text \<open>A property keeps its place when it is overwritten and is added last otherwise.\<close>

fun assign :: "(string \<times> jsval) list \<Rightarrow> string \<Rightarrow> jsval \<Rightarrow> (string \<times> jsval) list" where
  "assign [] k x = [(k, x)]"
| "assign ((k', v) # kvs) k x = (if k' = k then (k, x) # kvs else (k', v) # assign kvs k x)"

text \<open>
  \<open>v[k] = x\<close> in module code (strict mode): \<open>None\<close> is the TypeError of
  writing a property of \<open>undefined\<close> or of a string. An array has
  elements only in this model: a named property written to an array is not
  recorded (the parser yields an array only as the value of a child
  element, and the functions write named properties to elements of such
  arrays, never to the arrays).
\<close>

definition setProp :: "heap \<Rightarrow> jsval \<Rightarrow> string \<Rightarrow> jsval \<Rightarrow> heap option" where
  "setProp h v k x =
     (case v of
        Ref a \<Rightarrow> (case h ! a of Obj kvs \<Rightarrow> Some (h[a := Obj (assign kvs k x)]) | Arr xs \<Rightarrow> Some h)
      | _ \<Rightarrow> None)"

text \<open>
  \<open>Object.assign(target, source)\<close> for the properties of \<open>source\<close>: a
  TypeError for \<open>undefined\<close>; a string target is wrapped and stays as it is.
\<close>

definition objectAssign :: "heap \<Rightarrow> jsval \<Rightarrow> (string \<times> jsval) list \<Rightarrow> heap option" where
  "objectAssign h target props =
     (case target of
        Undefined \<Rightarrow> None
      | Str s \<Rightarrow> Some h
      | Ref a \<Rightarrow>
          (case h ! a of
             Obj kvs \<Rightarrow> Some (h[a := Obj (fold (\<lambda>(k, x) acc. assign acc k x) props kvs)])
           | Arr xs \<Rightarrow> Some h))"

definition isArray :: "heap \<Rightarrow> jsval \<Rightarrow> bool" where
  "isArray h v = (case v of Ref a \<Rightarrow> (case h ! a of Arr xs \<Rightarrow> True | Obj kvs \<Rightarrow> False) | _ \<Rightarrow> False)"

definition elements :: "heap \<Rightarrow> jsval \<Rightarrow> jsval list" where
  "elements h v = (case v of Ref a \<Rightarrow> (case h ! a of Arr xs \<Rightarrow> xs | Obj kvs \<Rightarrow> []) | _ \<Rightarrow> [])"

text \<open>\<open>Array.isArray(v) ? v : [v]\<close>, read only.\<close>

definition asList :: "heap \<Rightarrow> jsval \<Rightarrow> jsval list" where
  "asList h v = (if isArray h v then elements h v else [v])"

text \<open>\<open>Array.isArray(v) ? v[0] : v\<close>.\<close>

definition firstOrSelf :: "heap \<Rightarrow> jsval \<Rightarrow> jsval" where
  "firstOrSelf h v =
     (if isArray h v then (case elements h v of [] \<Rightarrow> Undefined | x # xs \<Rightarrow> x) else v)"

definition push :: "heap \<Rightarrow> jsval \<Rightarrow> jsval \<Rightarrow> heap" where
  "push h arr x =
     (case arr of Ref a \<Rightarrow> (case h ! a of Arr xs \<Rightarrow> h[a := Arr (xs @ [x])] | Obj kvs \<Rightarrow> h) | _ \<Rightarrow> h)"

definition setElement :: "heap \<Rightarrow> jsval \<Rightarrow> nat \<Rightarrow> jsval \<Rightarrow> heap" where
  "setElement h arr i x =
     (case arr of Ref a \<Rightarrow> (case h ! a of Arr xs \<Rightarrow> h[a := Arr (xs[i := x])] | Obj kvs \<Rightarrow> h) | _ \<Rightarrow> h)"

text \<open>
  \<open>if (!o[k]) o[k] = []; else if (!Array.isArray(o[k])) o[k] = [o[k]];\<close>
  The new array is a new cell. \<open>None\<close> is a TypeError.
\<close>

definition ensureArray :: "heap \<Rightarrow> jsval \<Rightarrow> string \<Rightarrow> heap option" where
  "ensureArray h obj k =
     (case getProp h obj k of
        None \<Rightarrow> None
      | Some v \<Rightarrow>
          if \<not> truthy v then setProp (h @ [Arr []]) obj k (Ref (length h))
          else if \<not> isArray h v then setProp (h @ [Arr [v]]) obj k (Ref (length h))
          else Some h)"

text \<open>\<open>xs.findIndex(c => c[k] === x)\<close>; the outer \<open>None\<close> is a TypeError.\<close>

fun findIndexProp :: "heap \<Rightarrow> jsval list \<Rightarrow> string \<Rightarrow> jsval \<Rightarrow> nat option option" where
  "findIndexProp h [] k x = Some None"
| "findIndexProp h (c # cs) k x =
     (case getProp h c k of
        None \<Rightarrow> None
      | Some v \<Rightarrow>
          if v = x then Some (Some 0)
          else (case findIndexProp h cs k x of
                  None \<Rightarrow> None
                | Some None \<Rightarrow> Some None
                | Some (Some i) \<Rightarrow> Some (Some (Suc i))))"

subsection \<open>TOMCAT_VAPT_SETTINGS\<close>

text \<open>
  The object literal of \<open>server\<close> names \<open>@_port\<close> twice: the property stands
  first and has the second value. \<open>shutdown\<close> is the text drawn once, when
  the module is loaded, from \<open>Math.random()\<close>.
\<close>

definition TOMCAT_VAPT_server :: "string \<Rightarrow> (string \<times> jsval) list" where
  "TOMCAT_VAPT_server shutdown = [(''@_port'', Str ''-1''), (''@_shutdown'', Str shutdown)]"

definition TOMCAT_VAPT_connector :: "(string \<times> jsval) list" where
  "TOMCAT_VAPT_connector =
     [(''@_maxThreads'', Str ''150''),
      (''@_minSpareThreads'', Str ''25''),
      (''@_connectionTimeout'', Str ''20000''),
      (''@_maxHttpHeaderSize'', Str ''8192''),
      (''@_maxParameterCount'', Str ''1000''),
      (''@_compression'', Str ''on''),
      (''@_compressionMinSize'', Str ''2048''),
      (''@_server'', Str ''Apache''),
      (''@_xpoweredBy'', Str ''false''),
      (''@_SSLEnabled'', Str ''true''),
      (''@_sslProtocol'', Str ''TLS''),
      (''@_sslEnabledProtocols'', Str ''TLSv1.2,TLSv1.3''),
      (''@_ciphers'', Str ''TLS_ECDHE_RSA_WITH_AES_128_GCM_SHA256,TLS_ECDHE_RSA_WITH_AES_256_GCM_SHA384''),
      (''@_SSLHonorCipherOrder'', Str ''true''),
      (''@_URIEncoding'', Str ''UTF-8''),
      (''@_useBodyEncodingForURI'', Str ''true''),
      (''@_allowTrace'', Str ''false''),
      (''@_maxPostSize'', Str ''2097152''),
      (''@_maxSavePostSize'', Str ''4096''),
      (''@_secure'', Str ''true''),
      (''@_scheme'', Str ''https'')]"

definition TOMCAT_VAPT_valve :: "(string \<times> jsval) list" where
  "TOMCAT_VAPT_valve =
     [(''@_className'', Str ''org.apache.catalina.valves.ErrorReportValve''),
      (''@_showReport'', Str ''false''),
      (''@_showServerInfo'', Str ''false'')]"

text \<open>\<open>service.Engine?.Host\<close>; \<open>None\<close> is a TypeError.\<close>

definition engineHost :: "heap \<Rightarrow> jsval \<Rightarrow> jsval option" where
  "engineHost h service =
     (case getProp h service ''Engine'' of
        None \<Rightarrow> None
      | Some engine \<Rightarrow> if engine = Undefined then Some Undefined else getProp h engine ''Host'')"

subsection \<open>extractTomcatUserSettings\<close>

text \<open>
  The function reads the old document and collects references to its
  objects. Of the five arrays of \<open>settings\<close> the merge uses \<open>connectors\<close> and
  \<open>hosts\<close>; the loop over the contexts of a host is kept for the exception
  it can throw. When the \<open>try\<close> block ends with an exception the function
  returns what it has collected.
\<close>

text \<open>
  \<open>isSSL || isCustomPort || conn[@_protocol]\<close>; \<open>None\<close> is the TypeError
  of an \<open>undefined\<close> connector.
\<close>

definition isCustomConnector :: "heap \<Rightarrow> jsval \<Rightarrow> bool option" where
  "isCustomConnector h conn =
     (case (getProp h conn ''@_port'', getProp h conn ''@_SSLEnabled'',
            getProp h conn ''@_secure'', getProp h conn ''@_protocol'') of
        (Some port, Some sslEnabled, Some secure, Some protocol) \<Rightarrow>
          (let isSSL = (sslEnabled = Str ''true'' \<or> secure = Str ''true'');
               isCustomPort = (truthy port \<and>
                 port \<notin> set [Str ''8080'', Str ''8009'', Str ''8005'', Str ''8443''])
           in Some (isSSL \<or> isCustomPort \<or> truthy protocol))
      | _ \<Rightarrow> None)"

fun extractConnectors :: "heap \<Rightarrow> jsval list \<Rightarrow> jsval list \<Rightarrow> jsval list \<times> bool" where
  "extractConnectors h [] acc = (acc, True)"
| "extractConnectors h (conn # rest) acc =
     (case isCustomConnector h conn of
        None \<Rightarrow> (acc, False)
      | Some custom \<Rightarrow> extractConnectors h rest (if custom then acc @ [conn] else acc))"

fun extractHosts :: "heap \<Rightarrow> jsval list \<Rightarrow> jsval list \<Rightarrow> jsval list \<times> bool" where
  "extractHosts h [] acc = (acc, True)"
| "extractHosts h (host # rest) acc =
     (case (getProp h host ''@_name'', getProp h host ''Context'') of
        (Some nm, Some context) \<Rightarrow>
          (let acc' = (if truthy nm \<and> nm \<noteq> Str ''localhost'' then acc @ [host] else acc)
           in if truthy context \<and> Undefined \<in> set (asList h context) then (acc', False)
              else extractHosts h rest acc')
      | _ \<Rightarrow> (acc, False))"

fun extractServices ::
  "heap \<Rightarrow> jsval list \<Rightarrow> jsval list \<times> jsval list \<Rightarrow> jsval list \<times> jsval list" where
  "extractServices h [] (connectors, hosts) = (connectors, hosts)"
| "extractServices h (service # rest) (connectors, hosts) =
     (case getProp h service ''Connector'' of
        None \<Rightarrow> (connectors, hosts)
      | Some connector \<Rightarrow>
          (case (if truthy connector then extractConnectors h (asList h connector) connectors
                 else (connectors, True)) of
             (connectors', False) \<Rightarrow> (connectors', hosts)
           | (connectors', True) \<Rightarrow>
               (case engineHost h service of
                  None \<Rightarrow> (connectors', hosts)
                | Some host \<Rightarrow>
                    (case (if truthy host then extractHosts h (asList h host) hosts
                           else (hosts, True)) of
                       (hosts', False) \<Rightarrow> (connectors', hosts')
                     | (hosts', True) \<Rightarrow> extractServices h rest (connectors', hosts')))))"

text \<open>The arrays \<open>settings.connectors\<close> and \<open>settings.hosts\<close> of the result.\<close>

definition extractTomcatUserSettings :: "heap \<Rightarrow> jsval \<Rightarrow> jsval list \<times> jsval list" where
  "extractTomcatUserSettings h config =
     (case getProp h config ''Server'' of
        None \<Rightarrow> ([], [])
      | Some server \<Rightarrow>
          if \<not> truthy server then ([], [])
          else (case getProp h server ''Service'' of
                  None \<Rightarrow> ([], [])
                | Some services \<Rightarrow> extractServices h (asList h services) ([], [])))"

subsection \<open>applyTomcatUserSettings\<close>

text \<open>
  A loop or a block returns the heap it reached and whether it ended
  without an exception. The \<open>try\<close> of each function catches the exception
  and logs it, so the function returns the heap reached.
\<close>

text \<open>\<open>a || b\<close>.\<close>

definition orElse :: "jsval \<Rightarrow> jsval \<Rightarrow> jsval" where
  "orElse a b = (if truthy a then a else b)"

text \<open>
  \<open>{...v}\<close>: the own properties of an object; the elements of an array and
  the characters of a string under their indices.
\<close>

definition spread :: "heap \<Rightarrow> jsval \<Rightarrow> (string \<times> jsval) list" where
  "spread h v =
     (case v of
        Undefined \<Rightarrow> []
      | Str s \<Rightarrow> map (\<lambda>i. (showNat i, Str [s ! i])) [0..<length s]
      | Ref a \<Rightarrow>
          (case h ! a of
             Obj kvs \<Rightarrow> kvs
           | Arr xs \<Rightarrow> map (\<lambda>i. (showNat i, xs ! i)) [0..<length xs]))"

text \<open>
  One round of the loop over the user's connectors: \<open>connector\<close> is
  \<open>service.Connector\<close>, an array. A connector with the port of the user's
  is replaced by a new object, the user's properties with two of the
  existing connector's put first in line; otherwise the user's object
  itself is pushed.
\<close>

definition mergeConnector :: "heap \<Rightarrow> jsval \<Rightarrow> jsval \<Rightarrow> heap \<times> bool" where
  "mergeConnector h connector userConn =
     (case getProp h userConn ''@_port'' of
        None \<Rightarrow> (h, False)
      | Some port \<Rightarrow>
          (case findIndexProp h (elements h connector) ''@_port'' port of
             None \<Rightarrow> (h, False)
           | Some None \<Rightarrow> (push h connector userConn, True)
           | Some (Some existingIdx) \<Rightarrow>
               (let existing = elements h connector ! existingIdx;
                    userProps = spread h userConn
                in case (getProp h existing ''@_sslProtocol'', getProp h userConn ''@_sslProtocol'',
                         getProp h existing ''@_ciphers'', getProp h userConn ''@_ciphers'') of
                     (Some p1, Some p2, Some c1, Some c2) \<Rightarrow>
                       (setElement (h @ [Obj (assign (assign userProps ''@_sslProtocol'' (orElse p1 p2))
                                                ''@_ciphers'' (orElse c1 c2))])
                          connector existingIdx (Ref (length h)),
                        True)
                   | _ \<Rightarrow> (h, False))))"

fun mergeConnectors :: "heap \<Rightarrow> jsval \<Rightarrow> jsval list \<Rightarrow> heap \<times> bool" where
  "mergeConnectors h connector [] = (h, True)"
| "mergeConnectors h connector (userConn # rest) =
     (case mergeConnector h connector userConn of
        (h', True) \<Rightarrow> mergeConnectors h' connector rest
      | (h', False) \<Rightarrow> (h', False))"

text \<open>One round of the loop over the user's hosts: \<open>host\<close> is \<open>service.Engine.Host\<close>.\<close>

definition mergeHost :: "heap \<Rightarrow> jsval \<Rightarrow> jsval \<Rightarrow> heap \<times> bool" where
  "mergeHost h host userHost =
     (case getProp h userHost ''@_name'' of
        None \<Rightarrow> (h, False)
      | Some nm \<Rightarrow>
          (case findIndexProp h (elements h host) ''@_name'' nm of
             None \<Rightarrow> (h, False)
           | Some None \<Rightarrow> (push h host userHost, True)
           | Some (Some existingIdx) \<Rightarrow> (h, True)))"

fun mergeHosts :: "heap \<Rightarrow> jsval \<Rightarrow> jsval list \<Rightarrow> heap \<times> bool" where
  "mergeHosts h host [] = (h, True)"
| "mergeHosts h host (userHost # rest) =
     (case mergeHost h host userHost of
        (h', True) \<Rightarrow> mergeHosts h' host rest
      | (h', False) \<Rightarrow> (h', False))"

text \<open>The block \<open>if (userSettings.connectors.length > 0) { ... }\<close>.\<close>

definition applyConnectors :: "heap \<Rightarrow> jsval \<Rightarrow> jsval list \<Rightarrow> heap \<times> bool" where
  "applyConnectors h service connectors =
     (if length connectors > 0 then
        (case ensureArray h service ''Connector'' of
           None \<Rightarrow> (h, False)
         | Some h1 \<Rightarrow>
             (case getProp h1 service ''Connector'' of
                None \<Rightarrow> (h1, False)
              | Some connector \<Rightarrow> mergeConnectors h1 connector connectors))
      else (h, True))"

text \<open>The block \<open>if (userSettings.hosts.length > 0 && service.Engine) { ... }\<close>.\<close>

definition applyHosts :: "heap \<Rightarrow> jsval \<Rightarrow> jsval list \<Rightarrow> heap \<times> bool" where
  "applyHosts h service hosts =
     (if length hosts > 0 then
        (case getProp h service ''Engine'' of
           None \<Rightarrow> (h, False)
         | Some engine \<Rightarrow>
             if truthy engine then
               (case ensureArray h engine ''Host'' of
                  None \<Rightarrow> (h, False)
                | Some h1 \<Rightarrow>
                    (case getProp h1 engine ''Host'' of
                       None \<Rightarrow> (h1, False)
                     | Some host \<Rightarrow> mergeHosts h1 host hosts))
             else (h, True))
      else (h, True))"

text \<open>
  \<open>connectors\<close> and \<open>hosts\<close> are the elements of \<open>userSettings.connectors\<close> and
  \<open>userSettings.hosts\<close>, which the function reads only: references to the
  objects of the old document that \<open>extractTomcatUserSettings\<close> collected.
\<close>

definition applyTomcatUserSettings :: "heap \<Rightarrow> jsval \<Rightarrow> jsval list \<Rightarrow> jsval list \<Rightarrow> heap" where
  "applyTomcatUserSettings h newConfig connectors hosts =
     (case getProp h newConfig ''Server'' of
        None \<Rightarrow> h
      | Some server \<Rightarrow>
          (case (if server = Undefined then Some Undefined else getProp h server ''Service'') of
             None \<Rightarrow> h
           | Some services \<Rightarrow>
               if \<not> truthy services then h
               else
                 (let service = firstOrSelf h services in
                  case applyConnectors h service connectors of
                    (h1, False) \<Rightarrow> h1
                  | (h1, True) \<Rightarrow> fst (applyHosts h1 service hosts))))"

subsection \<open>applyTomcatVAPT\<close>

fun hardenConnectors :: "heap \<Rightarrow> jsval list \<Rightarrow> heap \<times> bool" where
  "hardenConnectors h [] = (h, True)"
| "hardenConnectors h (conn # rest) =
     (case objectAssign h conn TOMCAT_VAPT_connector of
        None \<Rightarrow> (h, False)
      | Some h' \<Rightarrow> hardenConnectors h' rest)"

text \<open>
  \<open>valves.some(v => v[@_className]?.includes(ErrorReportValve))\<close>: a string
  is searched for the text, an array for the element, and an object has no
  \<open>includes\<close>. \<open>None\<close> is a TypeError.
\<close>

fun hasErrorValve :: "heap \<Rightarrow> jsval list \<Rightarrow> bool option" where
  "hasErrorValve h [] = Some False"
| "hasErrorValve h (v # vs) =
     (case getProp h v ''@_className'' of
        None \<Rightarrow> None
      | Some Undefined \<Rightarrow> hasErrorValve h vs
      | Some (Str s) \<Rightarrow> if includes_str s ''ErrorReportValve'' then Some True else hasErrorValve h vs
      | Some (Ref a) \<Rightarrow>
          (case h ! a of
             Arr xs \<Rightarrow> if Str ''ErrorReportValve'' \<in> set xs then Some True else hasErrorValve h vs
           | Obj kvs \<Rightarrow> None))"

text \<open>
  One round of the loop over the hosts. \<open>valve\<close> is the reference to the one
  object \<open>TOMCAT_VAPT_SETTINGS.valve\<close>, which is pushed itself.
\<close>

definition hardenHost :: "heap \<Rightarrow> jsval \<Rightarrow> jsval \<Rightarrow> heap \<times> bool" where
  "hardenHost h valve host =
     (case ensureArray h host ''Valve'' of
        None \<Rightarrow> (h, False)
      | Some h1 \<Rightarrow>
          (case getProp h1 host ''Valve'' of
             None \<Rightarrow> (h1, False)
           | Some valves \<Rightarrow>
               (case hasErrorValve h1 (elements h1 valves) of
                  None \<Rightarrow> (h1, False)
                | Some True \<Rightarrow> (h1, True)
                | Some False \<Rightarrow> (push h1 valves valve, True))))"

fun hardenHosts :: "heap \<Rightarrow> jsval \<Rightarrow> jsval list \<Rightarrow> heap \<times> bool" where
  "hardenHosts h valve [] = (h, True)"
| "hardenHosts h valve (host # rest) =
     (case hardenHost h valve host of
        (h', True) \<Rightarrow> hardenHosts h' valve rest
      | (h', False) \<Rightarrow> (h', False))"

definition applyTomcatVAPT :: "heap \<Rightarrow> jsval \<Rightarrow> string \<Rightarrow> jsval \<Rightarrow> heap" where
  "applyTomcatVAPT h config shutdown valve =
     (case getProp h config ''Server'' of
        None \<Rightarrow> h
      | Some server \<Rightarrow>
          if \<not> truthy server then h
          else
            (case objectAssign h server (TOMCAT_VAPT_server shutdown) of
               None \<Rightarrow> h
             | Some h1 \<Rightarrow>
                 (case getProp h1 server ''Service'' of
                    None \<Rightarrow> h1
                  | Some services \<Rightarrow>
                      (let service = firstOrSelf h1 services in
                       if \<not> truthy service then h1
                       else
                         (case getProp h1 service ''Connector'' of
                            None \<Rightarrow> h1
                          | Some connector \<Rightarrow>
                              (case (if truthy connector
                                     then hardenConnectors h1 (asList h1 connector)
                                     else (h1, True)) of
                                 (h2, False) \<Rightarrow> h2
                               | (h2, True) \<Rightarrow>
                                   (case engineHost h2 service of
                                      None \<Rightarrow> h2
                                    | Some host \<Rightarrow>
                                        if truthy host
                                        then fst (hardenHosts h2 valve (asList h2 host))
                                        else h2)))))))"

section \<open>Example documents\<close>

definition old_security_text :: string where
  "old_security_text = ''ServerTokens OS'' @ [NL] @ ''ServerName old.example.com''"

definition new_security_text :: string where
  "new_security_text = ''ServerName default'' @ [NL] @ ''ServerTokens Prod''"

definition old_vhost_text :: string where
  "old_vhost_text =
     ''Listen 443'' @ [NL] @
     ''<VirtualHost *:443>'' @ [NL] @
     ''    ServerName shop.example.com'' @ [NL] @
     ''    <IfModule ssl_module>'' @ [NL] @
     ''        SSLEngine on'' @ [NL] @
     ''    </IfModule>'' @ [NL] @
     ''</VirtualHost>'' @ [NL]"

definition new_plain_text :: string where
  "new_plain_text = ''ServerName default'' @ [NL] @ ''Listen 80'' @ [NL]"

definition old_two_listen_text :: string where
  "old_two_listen_text = ''Listen 80'' @ [NL] @ ''Listen 443''"

text \<open>A text with a comment, a directive and, after it, a module.\<close>

definition round_trip_text :: string where
  "round_trip_text =
     ''# Local settings'' @ [NL] @ ''Listen 8080'' @ [NL] @
     ''LoadModule status_module modules/mod_status.so''"

text \<open>Scenario 1 of the specification.\<close>

definition scenario1_old :: string where
  "scenario1_old = ''ServerName old.example.com'' @ [NL] @ ''Listen 8080''"

definition scenario1_new :: string where
  "scenario1_new =
     ''ServerName default'' @ [NL] @ ''Listen 80'' @ [NL] @ ''ServerTokens Full''"

text \<open>
  An environment: no service stopped, two clock readings, the Tomcat merge
  as the repository has it, and a JDK merge ending with an exception.
\<close>

definition env0 :: environment where
  "env0 =
     \<lparr> stopped = [],
       clockBuild = ''2024-05-01T10:00:00.000Z'',
       clockDiff = ''2024-05-01T10:00:00.002Z'',
       mergeTomcatConfig = mergeTomcatConfig_repo,
       mergeJDKConfig = (\<lambda>old new files. (Inl (Error ''keytool''), files)) \<rparr>"

text \<open>
  An old installation under \<open>/opt/old\<close> and the extracted new version under
  \<open>/tmp/new\<close>, each with its \<open>conf/httpd.conf\<close> of Scenario 1.
\<close>

definition scenario1_files :: fs where
  "scenario1_files =
     [[''opt'', ''old'', ''conf'', ''httpd.conf''] \<mapsto> scenario1_old,
      [''tmp'', ''new'', ''conf'', ''httpd.conf''] \<mapsto> scenario1_new]"

text \<open>
  The merge of \<open>conf/httpd.conf\<close> as \<open>comprehensivePreserveHTTPD_SECURE\<close> runs
  it, the merged text it writes, and the same merge run a second time on the
  files the first run left.
\<close>

definition scenario1_run :: "(js_error + counters) \<times> fs" where
  "scenario1_run =
     preserveMergeItem [''opt'', ''old''] [''tmp'', ''new''] [''conf'', ''httpd.conf''] True env0
       \<lparr> preservedCount = 0, mergedCount = 0, skippedCount = 0 \<rparr> scenario1_files"

definition scenario1_merged :: string where
  "scenario1_merged =
     buildApacheConfig (fst (mergeApacheSettings (parseApacheConfig scenario1_new)
       (fst (extractApacheUserSettings (parseApacheConfig scenario1_old) [])) []))
       ''2024-05-01T10:00:00.000Z'' @ VAPT_INCLUDE"

definition scenario1_rerun :: "(js_error + counters) \<times> fs" where
  "scenario1_rerun =
     preserveMergeItem [''opt'', ''old''] [''tmp'', ''new''] [''conf'', ''httpd.conf''] True env0
       \<lparr> preservedCount = 0, mergedCount = 1, skippedCount = 0 \<rparr> (snd scenario1_run)"

definition scenario1_merged_twice :: string where
  "scenario1_merged_twice =
     buildApacheConfig (fst (mergeApacheSettings (parseApacheConfig scenario1_merged)
       (fst (extractApacheUserSettings (parseApacheConfig scenario1_old) [])) []))
       ''2024-05-01T10:00:00.000Z'' @ VAPT_INCLUDE"

text \<open>
  An old installation with a \<open>conf/3dx.conf\<close> of its own and a new version
  that ships none.
\<close>

definition custom_conf_files :: fs where
  "custom_conf_files =
     [[''opt'', ''old'', ''conf'', ''3dx.conf''] \<mapsto> ''ProxyPass /3dspace http://localhost:8080/3dspace'']"

text \<open>An old installation with its \<open>conf/httpd.conf\<close> and a new version without one.\<close>

definition httpd_old_only_files :: fs where
  "httpd_old_only_files = [[''opt'', ''old'', ''conf'', ''httpd.conf''] \<mapsto> scenario1_old]"

text \<open>An old and a new \<open>conf/server.xml\<close>.\<close>

definition server_xml_files :: fs where
  "server_xml_files =
     [[''opt'', ''old'', ''conf'', ''server.xml''] \<mapsto> ''<Server port='' @ [CHR 0x22] @ ''8105'' @ [CHR 0x22] @ ''/>'',
      [''tmp'', ''new'', ''conf'', ''server.xml''] \<mapsto> ''<Server port='' @ [CHR 0x22] @ ''8005'' @ [CHR 0x22] @ ''/>'']"

text \<open>
  A store with a parsed old document (one directive, one VirtualHost block)
  and a parsed new document (one directive).
\<close>

definition store0 :: store where
  "store0 =
     \<lparr> dirArrays =
         [[\<lparr> name = ''Listen'', val = ''8080'', fullLine = ''Listen 8080'', lineNum = 1 \<rparr>],
          [\<lparr> name = ''Listen'', val = ''80'', fullLine = ''Listen 80'', lineNum = 1 \<rparr>]],
       modArrays = [[], []],
       blkArrays =
         [[\<lparr> content = ''<VirtualHost *:443>'' @ [NL] @ ''</VirtualHost>'',
             lines = [''<VirtualHost *:443>'', ''</VirtualHost>''],
             startIndex = 1, endIndex = 2 \<rparr>],
          [], [], [], [], []] \<rparr>"

definition old0 :: config_ref where
  "old0 = \<lparr> directives_at = 0, modules_at = 0, virtualHosts_at = 0,
            directories_at = 1, ifModules_at = 2 \<rparr>"

definition new0 :: config_ref where
  "new0 = \<lparr> directives_at = 1, modules_at = 1, virtualHosts_at = 3,
            directories_at = 4, ifModules_at = 5 \<rparr>"

text \<open>
  A heap with a parsed new \<open>server.xml\<close> (cells 0 to 3: the document, its
  \<open>Server\<close>, its \<open>Service\<close> and the one \<open>Connector\<close> on port 8080), a parsed
  old \<open>server.xml\<close> (cells 4 to 7, with an SSL connector on port 9443) and
  the object \<open>TOMCAT_VAPT_SETTINGS.valve\<close> (cell 8).
\<close>

definition tomcat_heap :: heap where
  "tomcat_heap =
     [Obj [(''Server'', Ref 1)],
      Obj [(''@_port'', Str ''8005''), (''@_shutdown'', Str ''SHUTDOWN''), (''Service'', Ref 2)],
      Obj [(''@_name'', Str ''Catalina''), (''Connector'', Ref 3)],
      Obj [(''@_port'', Str ''8080'')],
      Obj [(''Server'', Ref 5)],
      Obj [(''@_port'', Str ''8005''), (''@_shutdown'', Str ''SHUTDOWN''), (''Service'', Ref 6)],
      Obj [(''@_name'', Str ''Catalina''), (''Connector'', Ref 7)],
      Obj [(''@_port'', Str ''9443''), (''@_SSLEnabled'', Str ''true'')],
      Obj TOMCAT_VAPT_valve]"

definition tomcat_new :: jsval where
  "tomcat_new = Ref 0"

definition tomcat_old :: jsval where
  "tomcat_old = Ref 4"

text \<open>
  The heap after the three calls of \<open>mergeTomcatConfig\<close> on the two parsed
  documents, for the shutdown text \<open>SHUTDOWN_k3x9p\<close>.
\<close>

definition tomcat_merged_heap :: heap where
  "tomcat_merged_heap =
     (let userSettings = extractTomcatUserSettings tomcat_heap tomcat_old;
          h1 = applyTomcatUserSettings tomcat_heap tomcat_new (fst userSettings) (snd userSettings)
      in applyTomcatVAPT h1 tomcat_new ''SHUTDOWN_k3x9p'' (Ref 8))"





section \<open>White space\<close>

text \<open>
  A text that starts with a white space character starts with one of
  eleven bytes, and one that ends with a white space character ends with
  one of twenty-three: the two tests spare the search of the list for
  every other text.
\<close>

lemma find_whiteSpace:
  assumes "find P whiteSpace = Some w"
  shows "w \<in> set whiteSpace" and "P w" and "w \<noteq> []"
proof -
  from assms show "w \<in> set whiteSpace" and "P w" by (auto simp: find_Some_iff)
  then show "w \<noteq> []" by (auto simp: whiteSpace_def)
qed

lemma leadingSpace_code [code]:
  "leadingSpace s =
     (if s \<noteq> [] \<and>
         hd s \<in> set [CHR 0x09, CHR 0x0A, CHR 0x0B, CHR 0x0C, CHR 0x0D, CHR 0x20,
                      CHR 0xC2, CHR 0xE1, CHR 0xE2, CHR 0xE3, CHR 0xEF]
      then find (startsWith s) whiteSpace else None)"
proof (cases "leadingSpace s")
  case None
  then show ?thesis by (simp add: leadingSpace_def)
next
  case (Some w)
  then have w: "find (startsWith s) whiteSpace = Some w" by (simp add: leadingSpace_def)
  from find_whiteSpace [OF w] have t: "take (length w) s = w" and ne: "w \<noteq> []"
    by (simp_all add: startsWith_def)
  then have "s \<noteq> []" by auto
  moreover have "hd s = hd w"
    using hd_take [of "length w" s] t ne by simp
  moreover from find_whiteSpace(1) [OF w]
  have "hd w \<in> set [CHR 0x09, CHR 0x0A, CHR 0x0B, CHR 0x0C, CHR 0x0D, CHR 0x20,
                      CHR 0xC2, CHR 0xE1, CHR 0xE2, CHR 0xE3, CHR 0xEF]"
    unfolding whiteSpace_def by auto
  ultimately show ?thesis by (simp add: leadingSpace_def)
qed

lemma trailingSpace_code [code]:
  "trailingSpace s =
     (if s \<noteq> [] \<and>
         last s \<in> set [CHR 0x09, CHR 0x0A, CHR 0x0B, CHR 0x0C, CHR 0x0D, CHR 0x20,
                        CHR 0xA0, CHR 0x80, CHR 0x81, CHR 0x82, CHR 0x83, CHR 0x84, CHR 0x85,
                        CHR 0x86, CHR 0x87, CHR 0x88, CHR 0x89, CHR 0x8A, CHR 0xA8, CHR 0xA9,
                        CHR 0xAF, CHR 0x9F, CHR 0xBF]
      then find (endsWith s) whiteSpace else None)"
proof (cases "trailingSpace s")
  case None
  then show ?thesis by (simp add: trailingSpace_def)
next
  case (Some w)
  then have w: "find (endsWith s) whiteSpace = Some w" by (simp add: trailingSpace_def)
  from find_whiteSpace [OF w]
  have t: "drop (length s - length w) s = w" and le: "length w \<le> length s" and ne: "w \<noteq> []"
    by (simp_all add: endsWith_def)
  then have "s \<noteq> []" by auto
  moreover have "last s = last w"
  proof -
    have "length s - length w < length s" using le ne by (cases w) auto
    from last_drop [OF this] show ?thesis unfolding t by simp
  qed
  moreover from find_whiteSpace(1) [OF w]
  have "last w \<in> set [CHR 0x09, CHR 0x0A, CHR 0x0B, CHR 0x0C, CHR 0x0D, CHR 0x20,
                        CHR 0xA0, CHR 0x80, CHR 0x81, CHR 0x82, CHR 0x83, CHR 0x84, CHR 0x85,
                        CHR 0x86, CHR 0x87, CHR 0x88, CHR 0x89, CHR 0x8A, CHR 0xA8, CHR 0xA9,
                        CHR 0xAF, CHR 0x9F, CHR 0xBF]"
    unfolding whiteSpace_def by auto
  ultimately show ?thesis by (simp add: trailingSpace_def)
qed

section \<open>Properties of the directive-format merge\<close>

lemma findIndex_Some:
  "findIndex P xs = Some i \<Longrightarrow> i < length xs \<and> P (xs ! i)"
  by (induction xs arbitrary: i) (auto split: if_splits option.splits)

lemma findIndex_None:
  "findIndex P xs = None \<longleftrightarrow> (\<forall>x \<in> set xs. \<not> P x)"
  by (induction xs) (auto split: option.splits)

lemma filter_update_other:
  "i < length xs \<Longrightarrow> \<not> P (xs ! i) \<Longrightarrow> \<not> P y \<Longrightarrow> filter P (xs[i := y]) = filter P xs"
  by (induction xs arbitrary: i) (auto split: nat.splits)

lemma security_names_not_user:
  "set APACHE_SECURITY_DIRECTIVES \<inter> set APACHE_USER_DIRECTIVES = {}"
  by (simp add: APACHE_SECURITY_DIRECTIVES_def APACHE_USER_DIRECTIVES_def)

lemma mergeUserDirective_keeps_security:
  assumes "K \<in> set APACHE_SECURITY_DIRECTIVES"
  shows "filter (\<lambda>d. name d = K) (fst (mergeUserDirective u st)) = filter (\<lambda>d. name d = K) (fst st)"
proof (cases st)
  case (Pair ds logs)
  show ?thesis
  proof (cases "name u \<in> set APACHE_SECURITY_DIRECTIVES")
    case True
    then show ?thesis by (simp add: Pair mergeUserDirective_def)
  next
    case False
    with assms have ne: "name u \<noteq> K" by auto
    show ?thesis
    proof (cases "findIndex (\<lambda>d. name d = name u) ds")
      case None
      then show ?thesis using False ne by (simp add: Pair mergeUserDirective_def)
    next
      case (Some i)
      from findIndex_Some [OF Some] have "i < length ds" "name (ds ! i) = name u" by auto
      with ne have "filter (\<lambda>d. name d = K) (ds[i := u]) = filter (\<lambda>d. name d = K) ds"
        by (intro filter_update_other) auto
      then show ?thesis using False Some by (simp add: Pair mergeUserDirective_def)
    qed
  qed
qed

lemma fold_mergeUserDirective_keeps_security:
  assumes "K \<in> set APACHE_SECURITY_DIRECTIVES"
  shows "filter (\<lambda>d. name d = K) (fst (fold mergeUserDirective us st)) = filter (\<lambda>d. name d = K) (fst st)"
  by (induction us arbitrary: st) (simp_all add: mergeUserDirective_keeps_security [OF assms])

lemma directives_mergeApacheSettings:
  "directives (fst (mergeApacheSettings newConfig uc logs)) =
     fst (fold mergeUserDirective (user_directives uc) (directives newConfig, logs))"
  by (simp add: mergeApacheSettings_def split: prod.splits)

lemma virtualHosts_mergeApacheSettings:
  "virtualHosts (fst (mergeApacheSettings newConfig uc logs)) =
     virtualHosts newConfig @ user_virtualHosts uc"
  by (simp add: mergeApacheSettings_def split: prod.splits)

lemma user_virtualHosts_extract:
  "user_virtualHosts (fst (extractApacheUserSettings oldConfig logs)) = virtualHosts oldConfig"
  by (simp add: extractApacheUserSettings_def Let_def)

lemma scenario2_blocks:
  "map content (virtualHosts (fst (mergeApacheSettings (parseApacheConfig new_plain_text)
      (fst (extractApacheUserSettings (parseApacheConfig old_vhost_text) [])) []))) =
   [''<VirtualHost *:443>'' @ [NL] @
    ''    ServerName shop.example.com'' @ [NL] @
    ''    <IfModule ssl_module>'' @ [NL] @
    ''        SSLEngine on'' @ [NL] @
    ''    </IfModule>'' @ [NL] @
    ''</VirtualHost>'']"
  by code_simp

subsection \<open>Security directives\<close>

text \<open>
  C1. A directive name \<open>K\<close> of \<open>APACHE_SECURITY_DIRECTIVES\<close> has in the merged
  document exactly the directives it has in the new document, in the same
  order: the value of the new version stays and no directive of that name
  comes from the old document. This holds for the customizations extracted
  from any old document, and for any customizations handed to
  \<open>mergeApacheSettings\<close>, also ones that list \<open>K\<close> themselves (the skip in the
  merge loop). Lines inside a carried block are not directives of the
  document; a block is one opaque text.
\<close>

theorem security_wins:
  assumes "K \<in> set APACHE_SECURITY_DIRECTIVES"
  shows "filter (\<lambda>d. name d = K)
           (directives (fst (mergeApacheSettings newConfig
              (fst (extractApacheUserSettings oldConfig logs)) logs'))) =
         filter (\<lambda>d. name d = K) (directives newConfig)
       \<and> filter (\<lambda>d. name d = K)
           (directives (fst (mergeApacheSettings newConfig userCustomizations logs'))) =
         filter (\<lambda>d. name d = K) (directives newConfig)"
  by (simp add: directives_mergeApacheSettings fold_mergeUserDirective_keeps_security [OF assms])

theorem security_wins_witness:
  "''ServerTokens'' \<in> set APACHE_SECURITY_DIRECTIVES
   \<and> map fullLine (filter (\<lambda>d. name d = ''ServerTokens'')
        (directives (fst (mergeApacheSettings (parseApacheConfig new_security_text)
           (fst (extractApacheUserSettings (parseApacheConfig old_security_text) [])) [])))) =
     [''ServerTokens Prod'']"
proof -
  have k: "''ServerTokens'' \<in> set APACHE_SECURITY_DIRECTIVES"
    by (simp add: APACHE_SECURITY_DIRECTIVES_def)
  have new: "map fullLine (filter (\<lambda>d. name d = ''ServerTokens'')
               (directives (parseApacheConfig new_security_text))) = [''ServerTokens Prod'']"
    by code_simp
  from security_wins [OF k, of "parseApacheConfig new_security_text"
      "parseApacheConfig old_security_text" "[]" "[]"]
  show ?thesis using k new by simp
qed

subsection \<open>VirtualHost blocks\<close>

text \<open>
  C5. The VirtualHost blocks of the merged document are the blocks of the new
  document followed by all blocks of the old document, each unchanged and in
  the old order, so their number is the sum of the two. In Scenario 2 (one
  block in the old text, none in the new one) the merged document has that
  one block, with the text it had.
\<close>

theorem structural_blocks_preserved:
  "virtualHosts (fst (mergeApacheSettings newConfig
      (fst (extractApacheUserSettings oldConfig logs)) logs')) =
     virtualHosts newConfig @ virtualHosts oldConfig
   \<and> length (virtualHosts (fst (mergeApacheSettings newConfig
        (fst (extractApacheUserSettings oldConfig logs)) logs'))) =
     length (virtualHosts oldConfig) + length (virtualHosts newConfig)
   \<and> map content (virtualHosts (fst (mergeApacheSettings (parseApacheConfig new_plain_text)
        (fst (extractApacheUserSettings (parseApacheConfig old_vhost_text) [])) []))) =
     [''<VirtualHost *:443>'' @ [NL] @
      ''    ServerName shop.example.com'' @ [NL] @
      ''    <IfModule ssl_module>'' @ [NL] @
      ''        SSLEngine on'' @ [NL] @
      ''    </IfModule>'' @ [NL] @
      ''</VirtualHost>'']"
  using scenario2_blocks
  by (simp add: virtualHosts_mergeApacheSettings user_virtualHosts_extract)

subsection \<open>User directives\<close>

text \<open>
  C2, at an old document with two \<open>Listen\<close> lines and a new document without
  one. \<open>Listen\<close> is a name of \<open>APACHE_USER_DIRECTIVES\<close> and both lines are
  extracted (the caller reports two preserved settings), but the second
  round of the merge loop finds the directive the first round appended and
  replaces it: the merged document holds \<open>Listen 443\<close> only.
\<close>

theorem repeated_user_directive_overwritten:
  "''Listen'' \<in> set APACHE_USER_DIRECTIVES
   \<and> map fullLine (directives (parseApacheConfig old_two_listen_text)) =
       [''Listen 80'', ''Listen 443'']
   \<and> directives (parseApacheConfig []) = []
   \<and> length (user_directives
        (fst (extractApacheUserSettings (parseApacheConfig old_two_listen_text) []))) = 2
   \<and> map fullLine (directives (fst (mergeApacheSettings (parseApacheConfig [])
        (fst (extractApacheUserSettings (parseApacheConfig old_two_listen_text) [])) []))) =
       [''Listen 443'']
   \<and> snd (mergeApacheSettings (parseApacheConfig [])
        (fst (extractApacheUserSettings (parseApacheConfig old_two_listen_text) [])) []) =
       [Added ''Listen'', Replaced ''Listen'']"
  by code_simp

section \<open>Properties of the diff report\<close>

lemma reportBody_Cons: "\<exists>x xs. reportBody a b = x # xs"
  by (simp add: reportBody_def Let_def)

lemma diffReport_split:
  "diffReport A B now =
     (repeat BOX 100 @ [NL] @ ''                    CONFIGURATION DIFF REPORT'' @ [NL] @
      ''                    Generated: '') @ now @
     ([NL] @ join [NL] (reportBody (splitOn NL A) (splitOn NL B)))"
proof -
  obtain x xs where b: "reportBody (splitOn NL A) (splitOn NL B) = x # xs"
    using reportBody_Cons by blast
  show ?thesis by (simp add: diffReport_def b)
qed

lemma diffReport_inj: "diffReport A B t1 = diffReport A B t2 \<Longrightarrow> t1 = t2"
  by (simp add: diffReport_split)

text \<open>
  C7 as stated fails: the third line of the report is the time of its
  generation, so two invocations on the same texts at two clock readings
  write two different reports.
\<close>

theorem diff_report_clock_counterexample:
  "diffReport ''Listen 80'' ''Listen 8080'' ''2024-05-01T10:00:00.000Z'' \<noteq>
   diffReport ''Listen 80'' ''Listen 8080'' ''2024-05-01T10:00:00.002Z''"
  using diffReport_inj [of "''Listen 80''" "''Listen 8080''"
      "''2024-05-01T10:00:00.000Z''" "''2024-05-01T10:00:00.002Z''"]
  by auto

text \<open>
  C7, amended. The report is a function of the two texts and of the clock
  reading \<open>now\<close>, and \<open>now\<close> enters it at one place only: the report is a
  fixed heading that ends with \<open>Generated:\<close>, then \<open>now\<close>, then a text that
  depends on the two input texts alone. Two invocations on the same inputs
  write reports that are equal byte for byte outside that time stamp.
\<close>

theorem diff_report_up_to_timestamp:
  "diffReport A B now =
     (repeat BOX 100 @ [NL] @ ''                    CONFIGURATION DIFF REPORT'' @ [NL] @
      ''                    Generated: '') @ now @
     ([NL] @ join [NL] (reportBody (splitOn NL A) (splitOn NL B)))
   \<and> generateDiffReport A B reportPath now files reportPath = Some (diffReport A B now)"
  by (simp add: diffReport_split generateDiffReport_def writeFile_def)


section \<open>Properties of the merge on files\<close>

lemma addSuffix_ne: "ext \<noteq> [] \<Longrightarrow> addSuffix p ext \<noteq> p"
  by (cases p rule: rev_cases) (simp_all add: addSuffix_def)

text \<open>What \<open>mergeApacheConfig\<close> writes when both files can be read.\<close>

lemma mergeApacheConfig_writes:
  assumes "files oldConfPath = Some oldContent" and "files newConfPath = Some newContent"
  shows "mergeApacheConfig oldConfPath newConfPath outputPath nowBuild nowDiff files =
    (let uc = fst (extractApacheUserSettings (parseApacheConfig oldContent) []);
         finalContent =
           buildApacheConfig (fst (mergeApacheSettings (parseApacheConfig newContent) uc [])) nowBuild
           @ VAPT_INCLUDE
     in (Inr (ApacheResult (length (user_directives uc)) (length (user_virtualHosts uc))
               (addSuffix outputPath ''.diff.txt'')
               (dirname outputPath @ [''conf'', ''extra'', ''httpd-security-vapt.conf''])),
         files(dirname outputPath @ [''conf'', ''extra'', ''httpd-security-vapt.conf'']
                 \<mapsto> APACHE_VAPT_CONFIG,
               outputPath \<mapsto> finalContent,
               addSuffix outputPath ''.diff.txt'' \<mapsto> diffReport oldContent finalContent nowDiff)))"
  using assms
  by (simp add: mergeApacheConfig_def readFile_def writeFile_def generateDiffReport_def Let_def)

lemma toolMerge_httpd:
  "toolMerge ''httpd'' old new out env files =
     mergeApacheConfig old new out (clockBuild env) (clockDiff env) files"
  by (simp add: toolMerge_def toLowerChar_def startsWith_def)

lemma scenario1_merged_lines:
  "splitOn NL (buildApacheConfig (fst (mergeApacheSettings (parseApacheConfig scenario1_new)
      (fst (extractApacheUserSettings (parseApacheConfig scenario1_old) [])) []))
      ''2024-05-01T10:00:00.000Z'' @ VAPT_INCLUDE) =
   [''# ============================================================================'',
    ''# Apache HTTP Server Configuration - Merged by Upgrade Tool'',
    ''# Generated: 2024-05-01T10:00:00.000Z'',
    ''# ============================================================================'',
    [],
    ''# Server Configuration'',
    ''ServerName old.example.com'',
    ''Listen 8080'',
    ''ServerTokens Full'',
    [],
    [],
    ''# Include VAPT Security Hardening'',
    ''Include conf/extra/httpd-security-vapt.conf'',
    []]"
  by code_simp

text \<open>
  The loop body on an item whose old and new file both exist: the merge
  succeeds, and the hardening file is written below the directory of the
  merged file.
\<close>

lemma preserveMergeItem_httpd:
  assumes "files (oldHttpd @ itemPath) = Some oldContent"
    and "files (newHttpd @ itemPath) = Some newContent"
  shows "preserveMergeItem oldHttpd newHttpd itemPath critical env cnt files =
    (let finalContent =
           buildApacheConfig (fst (mergeApacheSettings (parseApacheConfig newContent)
             (fst (extractApacheUserSettings (parseApacheConfig oldContent) [])) []))
             (clockBuild env) @ VAPT_INCLUDE;
         targetPath = newHttpd @ itemPath
     in (Inr (cnt\<lparr> mergedCount := mergedCount cnt + 1 \<rparr>),
         files(dirname targetPath @ [''conf'', ''extra'', ''httpd-security-vapt.conf'']
                 \<mapsto> APACHE_VAPT_CONFIG,
               targetPath \<mapsto> finalContent,
               addSuffix targetPath ''.diff.txt''
                 \<mapsto> diffReport oldContent finalContent (clockDiff env))))"
  unfolding preserveMergeItem_def smartMergeConfiguration_def toolMerge_httpd
  by (simp add: assms Let_def
        mergeApacheConfig_writes [where files = files and oldContent = oldContent
          and newContent = newContent, OF assms])

lemma scenario1_run_eq:
  "scenario1_run =
     (Inr \<lparr> preservedCount = 0, mergedCount = 1, skippedCount = 0 \<rparr>,
      scenario1_files
        ([''tmp'', ''new'', ''conf'', ''conf'', ''extra'', ''httpd-security-vapt.conf'']
           \<mapsto> APACHE_VAPT_CONFIG,
         [''tmp'', ''new'', ''conf'', ''httpd.conf''] \<mapsto> scenario1_merged,
         [''tmp'', ''new'', ''conf'', ''httpd.conf.diff.txt'']
           \<mapsto> diffReport scenario1_old scenario1_merged ''2024-05-01T10:00:00.002Z''))"
proof -
  have old: "scenario1_files ([''opt'', ''old''] @ [''conf'', ''httpd.conf'']) = Some scenario1_old"
    and new: "scenario1_files ([''tmp'', ''new''] @ [''conf'', ''httpd.conf'']) = Some scenario1_new"
    by (simp_all add: scenario1_files_def)
  show ?thesis
    unfolding scenario1_run_def
      preserveMergeItem_httpd [where files = scenario1_files and oldContent = scenario1_old
        and newContent = scenario1_new, OF old new]
    by (simp add: Let_def env0_def dirname_def addSuffix_def scenario1_merged_def)
qed

lemma scenario1_rerun_eq:
  "scenario1_rerun =
     (Inr \<lparr> preservedCount = 0, mergedCount = 2, skippedCount = 0 \<rparr>,
      (snd scenario1_run)
        ([''tmp'', ''new'', ''conf'', ''conf'', ''extra'', ''httpd-security-vapt.conf'']
           \<mapsto> APACHE_VAPT_CONFIG,
         [''tmp'', ''new'', ''conf'', ''httpd.conf''] \<mapsto> scenario1_merged_twice,
         [''tmp'', ''new'', ''conf'', ''httpd.conf.diff.txt'']
           \<mapsto> diffReport scenario1_old scenario1_merged_twice ''2024-05-01T10:00:00.002Z''))"
proof -
  have old: "snd scenario1_run ([''opt'', ''old''] @ [''conf'', ''httpd.conf'']) = Some scenario1_old"
    and new: "snd scenario1_run ([''tmp'', ''new''] @ [''conf'', ''httpd.conf'']) = Some scenario1_merged"
    by (simp_all add: scenario1_run_eq scenario1_files_def)
  show ?thesis
    unfolding scenario1_rerun_def
      preserveMergeItem_httpd [where files = "snd scenario1_run" and oldContent = scenario1_old
        and newContent = scenario1_merged, OF old new]
    by (simp add: Let_def env0_def dirname_def addSuffix_def scenario1_merged_twice_def)
qed

lemma scenario1_merged_twice_lines:
  "splitOn NL scenario1_merged_twice =
   [''# ============================================================================'',
    ''# Apache HTTP Server Configuration - Merged by Upgrade Tool'',
    ''# Generated: 2024-05-01T10:00:00.000Z'',
    ''# ============================================================================'',
    [],
    ''# Server Configuration'',
    ''ServerName old.example.com'',
    ''Listen 8080'',
    ''ServerTokens Full'',
    ''Include conf/extra/httpd-security-vapt.conf'',
    [],
    [],
    ''# Include VAPT Security Hardening'',
    ''Include conf/extra/httpd-security-vapt.conf'',
    []]"
  by code_simp

text \<open>
  C6, evaluated as \<open>comprehensivePreserveHTTPD_SECURE\<close> runs the merge of
  \<open>conf/httpd.conf\<close>. The merged file keeps \<open>ServerName old.example.com\<close> and
  \<open>Listen 8080\<close>; its only \<open>ServerTokens\<close> line is the \<open>Full\<close> of the new
  version, and \<open>Prod\<close> stands in the hardening file alone. The last line
  includes \<open>conf/extra/httpd-security-vapt.conf\<close>, a path httpd reads from
  the root of the installation, but the hardening file was written below
  the directory of the merged file, at \<open>conf/conf/extra\<close>: no file exists at
  the included path.
\<close>

theorem scenario1_hardening_file_misplaced:
  "fst scenario1_run = Inr \<lparr> preservedCount = 0, mergedCount = 1, skippedCount = 0 \<rparr>
   \<and> map_option (splitOn NL) (snd scenario1_run [''tmp'', ''new'', ''conf'', ''httpd.conf'']) =
       Some [''# ============================================================================'',
             ''# Apache HTTP Server Configuration - Merged by Upgrade Tool'',
             ''# Generated: 2024-05-01T10:00:00.000Z'',
             ''# ============================================================================'',
             [],
             ''# Server Configuration'',
             ''ServerName old.example.com'',
             ''Listen 8080'',
             ''ServerTokens Full'',
             [],
             [],
             ''# Include VAPT Security Hardening'',
             ''Include conf/extra/httpd-security-vapt.conf'',
             []]
   \<and> snd scenario1_run
         [''tmp'', ''new'', ''conf'', ''conf'', ''extra'', ''httpd-security-vapt.conf''] =
       Some APACHE_VAPT_CONFIG
   \<and> snd scenario1_run [''tmp'', ''new'', ''conf'', ''extra'', ''httpd-security-vapt.conf''] = None"
  using scenario1_merged_lines
  by (simp add: scenario1_run_eq scenario1_merged_def scenario1_files_def)


text \<open>
  C4, at a new \<open>conf/httpd.conf\<close> that already ends with the include of the
  hardening file (here the file a first run of the merge left at the target
  path, which the merge reads as the new version's file): the step appends
  its two lines without looking for them, and the merged file includes the
  hardening file twice.
\<close>

theorem include_line_appended_twice:
  "fst scenario1_rerun = Inr \<lparr> preservedCount = 0, mergedCount = 2, skippedCount = 0 \<rparr>
   \<and> map_option (\<lambda>c. filter (\<lambda>l. l = ''Include conf/extra/httpd-security-vapt.conf'') (splitOn NL c))
         (snd scenario1_run [''tmp'', ''new'', ''conf'', ''httpd.conf'']) =
       Some [''Include conf/extra/httpd-security-vapt.conf'']
   \<and> map_option (\<lambda>c. filter (\<lambda>l. l = ''Include conf/extra/httpd-security-vapt.conf'') (splitOn NL c))
         (snd scenario1_rerun [''tmp'', ''new'', ''conf'', ''httpd.conf'']) =
       Some [''Include conf/extra/httpd-security-vapt.conf'',
             ''Include conf/extra/httpd-security-vapt.conf'']"
  using scenario1_merged_lines scenario1_merged_twice_lines
  by (simp add: scenario1_run_eq scenario1_rerun_eq scenario1_merged_def)

subsection \<open>The fallback of smartMergeConfiguration\<close>

lemma copy_onto_itself: "copy p p files = Inl (ENOENT p) \<or>
    copy p p files = Inl (Error ''Source and destination must not be the same.'')"
  by (simp add: copy_def split: option.splits)

text \<open>
  C9. The claim is that a merge which throws is not fatal: the new
  version's file is copied to the output path, the old file is saved as
  \<open><output>.old-backup\<close>, the result has \<open>merged: false\<close> and the run goes
  on. The \<open>catch\<close> block of \<open>smartMergeConfiguration\<close> is written to do
  this, and in no call of the server does it. Every caller passes the path
  of the new version's file as the output path
  (\<open>smartMergeConfiguration(tool, sourcePath, targetPath, targetPath)\<close> in
  all three \<open>comprehensivePreserve\<close> functions), so the first copy of the
  fallback copies a file onto itself. \<open>fs.copy\<close> refuses that, or the file
  does not exist; either way the inner \<open>catch\<close> throws the exception of
  the merge again. For every tool, environment and file system such a call
  ends as the merge ends: when the merge throws, the same exception leaves
  \<open>smartMergeConfiguration\<close>, no object with \<open>merged: false\<close> is returned
  and no \<open>.old-backup\<close> file is written.

  Three calls the server makes: the merge of Tomcat's \<open>conf/server.xml\<close>,
  present in both versions, ends with the \<open>ReferenceError\<close> of
  \<open>mergeTomcatConfig\<close>; the merge of \<open>conf/httpd.conf\<close>, missing in the new
  version, ends with \<open>ENOENT\<close>, and the item being critical the exception
  leaves \<open>comprehensivePreserveHTTPD_SECURE\<close> and fails the upgrade; the
  merge of \<open>conf/3dx.conf\<close>, missing in the new version and not critical,
  ends the same way and the item is counted as skipped, with nothing
  written.
\<close>

theorem merge_failure_not_recovered:
  "smartMergeConfiguration toolType oldConfigPath newConfigPath newConfigPath env files =
     (case toolMerge toolType oldConfigPath newConfigPath newConfigPath env files of
        (Inr result, files1) \<Rightarrow> (Inr (result, Some (stopped env)), files1)
      | (Inl error, files1) \<Rightarrow> (Inl error, files1))
   \<and> smartMergeConfiguration ''tomcat'' [''opt'', ''old'', ''conf'', ''server.xml'']
        [''tmp'', ''new'', ''conf'', ''server.xml''] [''tmp'', ''new'', ''conf'', ''server.xml'']
        env0 server_xml_files =
     (Inl (ReferenceError ''logStep is not defined''), server_xml_files)
   \<and> preserveMergeItem [''opt'', ''old''] [''tmp'', ''new''] [''conf'', ''httpd.conf''] True env0
        \<lparr> preservedCount = 0, mergedCount = 0, skippedCount = 0 \<rparr> httpd_old_only_files =
     (Inl (Error ''Failed to preserve critical item: conf/httpd.conf (ENOENT)''),
      httpd_old_only_files)
   \<and> preserveMergeItem [''opt'', ''old''] [''tmp'', ''new''] [''conf'', ''3dx.conf''] False env0
        \<lparr> preservedCount = 0, mergedCount = 0, skippedCount = 0 \<rparr> custom_conf_files =
     (Inr \<lparr> preservedCount = 0, mergedCount = 0, skippedCount = 1 \<rparr>, custom_conf_files)"
proof (intro conjI)
  show "smartMergeConfiguration toolType oldConfigPath newConfigPath newConfigPath env files =
     (case toolMerge toolType oldConfigPath newConfigPath newConfigPath env files of
        (Inr result, files1) \<Rightarrow> (Inr (result, Some (stopped env)), files1)
      | (Inl error, files1) \<Rightarrow> (Inl error, files1))"
  proof (cases "toolMerge toolType oldConfigPath newConfigPath newConfigPath env files")
    case (Pair r files1)
    show ?thesis
    proof (cases r)
      case (Inl error)
      with Pair copy_onto_itself [of newConfigPath files1] show ?thesis
        by (auto simp: smartMergeConfiguration_def)
    next
      case (Inr result)
      with Pair show ?thesis by (simp add: smartMergeConfiguration_def)
    qed
  qed
next
  let ?old = "[''opt'', ''old'', ''conf'', ''server.xml'']"
  let ?new = "[''tmp'', ''new'', ''conf'', ''server.xml'']"
  have "toolMerge ''tomcat'' ?old ?new ?new env0 server_xml_files =
          (Inl (ReferenceError ''logStep is not defined''), server_xml_files)"
    by (simp add: toolMerge_def toLowerChar_def startsWith_def env0_def
          mergeTomcatConfig_repo_def readFile_def server_xml_files_def)
  then show "smartMergeConfiguration ''tomcat'' ?old ?new ?new env0 server_xml_files =
          (Inl (ReferenceError ''logStep is not defined''), server_xml_files)"
    by (simp add: smartMergeConfiguration_def copy_def server_xml_files_def)
next
  let ?old = "[''opt'', ''old'', ''conf'', ''httpd.conf'']"
  let ?new = "[''tmp'', ''new'', ''conf'', ''httpd.conf'']"
  have m: "smartMergeConfiguration ''httpd'' ?old ?new ?new env0 httpd_old_only_files =
     (Inl (ENOENT ?new), httpd_old_only_files)"
    unfolding smartMergeConfiguration_def toolMerge_httpd
    by (simp add: mergeApacheConfig_def readFile_def copy_def httpd_old_only_files_def)
  have src: "httpd_old_only_files ?old \<noteq> None" by (simp add: httpd_old_only_files_def)
  show "preserveMergeItem [''opt'', ''old''] [''tmp'', ''new''] [''conf'', ''httpd.conf''] True env0
        \<lparr> preservedCount = 0, mergedCount = 0, skippedCount = 0 \<rparr> httpd_old_only_files =
     (Inl (Error ''Failed to preserve critical item: conf/httpd.conf (ENOENT)''),
      httpd_old_only_files)"
    using src by (simp add: m preserveMergeItem_def Let_def)
next
  let ?old = "[''opt'', ''old'', ''conf'', ''3dx.conf'']"
  let ?new = "[''tmp'', ''new'', ''conf'', ''3dx.conf'']"
  have m: "smartMergeConfiguration ''httpd'' ?old ?new ?new env0 custom_conf_files =
     (Inl (ENOENT ?new), custom_conf_files)"
    unfolding smartMergeConfiguration_def toolMerge_httpd
    by (simp add: mergeApacheConfig_def readFile_def copy_def custom_conf_files_def)
  have src: "custom_conf_files ?old \<noteq> None" by (simp add: custom_conf_files_def)
  show "preserveMergeItem [''opt'', ''old''] [''tmp'', ''new''] [''conf'', ''3dx.conf''] False env0
        \<lparr> preservedCount = 0, mergedCount = 0, skippedCount = 0 \<rparr> custom_conf_files =
     (Inr \<lparr> preservedCount = 0, mergedCount = 0, skippedCount = 1 \<rparr>, custom_conf_files)"
    using src by (simp add: m preserveMergeItem_def Let_def)
qed

section \<open>Parsing and serializing a directive text\<close>

subsection \<open>Splitting and joining\<close>

lemma splitOn_nonempty: "splitOn c s \<noteq> []"
  by (induction s) (auto split: list.splits)

lemma splitOn_append_sep: "splitOn c (a @ c # b) = splitOn c a @ splitOn c b"
proof (induction a)
  case Nil
  then show ?case by simp
next
  case (Cons x a)
  obtain w ws where "splitOn c a = w # ws"
    using splitOn_nonempty [of c a] by (cases "splitOn c a") auto
  with Cons show ?case by simp
qed

lemma splitOn_join:
  "xs \<noteq> [] \<Longrightarrow> splitOn c (join [c] xs) = concat (map (splitOn c) xs)"
proof (induction xs)
  case Nil
  then show ?case by simp
next
  case (Cons x xs)
  show ?case
  proof (cases xs)
    case Nil
    then show ?thesis by simp
  next
    case (Cons y ys)
    with Cons.IH show ?thesis by (simp add: splitOn_append_sep)
  qed
qed

lemma splitOn_no_sep: "c \<notin> set s \<Longrightarrow> splitOn c s = [s]"
  by (induction s) auto

lemma splitOn_pieces: "l \<in> set (splitOn c s) \<Longrightarrow> c \<notin> set l"
proof (induction s arbitrary: l)
  case Nil
  then show ?case by simp
next
  case (Cons x s)
  obtain w ws where ws: "splitOn c s = w # ws"
    using splitOn_nonempty [of c s] by (cases "splitOn c s") auto
  show ?case
  proof (cases "x = c")
    case True
    with Cons show ?thesis by auto
  next
    case False
    with Cons.prems ws have "l = x # w \<or> l \<in> set ws" by auto
    then show ?thesis
      using Cons.IH [of w] Cons.IH [of l] ws False by auto
  qed
qed

subsection \<open>What the parser records\<close>

lemma extractLoop_lines:
  "0 < d \<Longrightarrow> extractLoop lns s e j d bl = (bl', k) \<Longrightarrow>
     bl' = bl @ take (Suc k - j) (drop j lns) \<and> j \<le> k"
proof (induction lns s e j d bl arbitrary: bl' k rule: extractLoop.induct)
  case (1 lns startTag endTag i depth blockLines)
  show ?case
  proof (cases "i < length lns")
    case False
    with "1.prems" show ?thesis by (simp add: extractLoop.simps [of lns startTag endTag i])
  next
    case True
    let ?t = "trim (lns ! i)"
    let ?d1 = "if startsWith ?t startTag then depth + 1 else depth"
    let ?d2 = "if startsWith ?t endTag then ?d1 - 1 else ?d1"
    show ?thesis
    proof (cases "?d2 = 0")
      case z: True
      with True "1.prems" have "bl' = blockLines @ [lns ! i]" "k = i"
        by (auto simp: extractLoop.simps [of lns startTag endTag i] Let_def)
      with True show ?thesis by (simp add: take_Suc_conv_app_nth hd_drop_conv_nth take_Suc)
    next
      case nz: False
      with "1.prems"(1) have pos: "0 < ?d2" by (auto split: if_splits)
      from True nz "1.prems" have r: "extractLoop lns startTag endTag (i + 1) ?d2 (blockLines @ [lns ! i]) = (bl', k)"
        by (simp add: extractLoop.simps [of lns startTag endTag i] Let_def)
      from "1.IH" [OF _ refl refl refl refl nz pos r] True "1.prems"(1)
      have ih: "bl' = (blockLines @ [lns ! i]) @ take (Suc k - (i + 1)) (drop (i + 1) lns)" "i + 1 \<le> k"
        by auto
      have "take (Suc k - i) (drop i lns) = lns ! i # take (k - i) (drop (Suc i) lns)"
        using True ih(2) by (simp add: Suc_diff_le Cons_nth_drop_Suc [symmetric])
      with ih show ?thesis by simp
    qed
  qed
qed


lemma splitWs_nonempty: "splitWs cur s \<noteq> []"
  by (induction cur s rule: splitWs.induct) auto

lemma parseApacheDirective_None:
  "parseApacheDirective ln = None \<longleftrightarrow> blankOrComment ln"
  using splitWs_nonempty [of "[]" "trim ln"]
  by (cases "splitWs [] (trim ln)") (auto simp: parseApacheDirective_def blankOrComment_def Let_def)

lemma parseApacheDirective_fullLine:
  "parseApacheDirective ln = Some d \<Longrightarrow> fullLine d = ln"
  by (auto simp: parseApacheDirective_def Let_def split: if_splits)

lemma extractApacheBlock_lines:
  assumes "i < length lns"
  shows "lines (extractApacheBlock lns i s e) =
           take (Suc (endIndex (extractApacheBlock lns i s e)) - i) (drop i lns)
         \<and> i < endIndex (extractApacheBlock lns i s e)
         \<and> blockTextOk (extractApacheBlock lns i s e)"
proof -
  obtain bl k where r: "extractLoop lns s e (Suc i) 1 [lns ! i] = (bl, k)"
    by (cases "extractLoop lns s e (Suc i) 1 [lns ! i]")
  from extractLoop_lines [OF _ r]
  have bl: "bl = [lns ! i] @ take (Suc k - Suc i) (drop (Suc i) lns)" and k: "Suc i \<le> k"
    by simp_all
  have "take (Suc k - i) (drop i lns) = lns ! i # take (k - i) (drop (Suc i) lns)"
    using assms k by (simp add: Suc_diff_le Cons_nth_drop_Suc [symmetric])
  with bl k show ?thesis
    by (simp add: extractApacheBlock_def r blockTextOk_def)
qed


subsection \<open>One round of the parser's loop\<close>

text \<open>
  A round at line \<open>i\<close> passes over a blank line or a comment, or it adds the
  line to the modules or to the directives, or it adds the block that
  starts there, up to the line before \<open>i'\<close>, to one of the three lists of
  blocks; the loop goes on from \<open>i'\<close>.
\<close>

lemma parseLoop_step:
  assumes "i < length lns"
  shows "\<exists>i' cfg'. parseLoop lns i cfg = parseLoop lns i' cfg' \<and> i < i' \<and>
    ((cfg' = cfg \<and> i' = i + 1 \<and> blankOrComment (lns ! i))
     \<or> (\<exists>m. cfg' = cfg\<lparr> modules := modules cfg @ [m] \<rparr> \<and> line m = lns ! i \<and> i' = i + 1)
     \<or> (\<exists>d. cfg' = cfg\<lparr> directives := directives cfg @ [d] \<rparr> \<and> fullLine d = lns ! i \<and> i' = i + 1)
     \<or> (\<exists>b. cfg' = cfg\<lparr> ifModules := ifModules cfg @ [b] \<rparr> \<and>
              lines b = take (i' - i) (drop i lns) \<and> blockTextOk b)
     \<or> (\<exists>b. cfg' = cfg\<lparr> directories := directories cfg @ [b] \<rparr> \<and>
              lines b = take (i' - i) (drop i lns) \<and> blockTextOk b)
     \<or> (\<exists>b. cfg' = cfg\<lparr> virtualHosts := virtualHosts cfg @ [b] \<rparr> \<and>
              lines b = take (i' - i) (drop i lns) \<and> blockTextOk b))"
proof -
  let ?t = "trim (lns ! i)"
  have blk: "lines b = take (endIndex b + 1 - i) (drop i lns) \<and> blockTextOk b \<and> i < endIndex b + 1"
    if "b = extractApacheBlock lns i s e" for b s e
    using extractApacheBlock_lines [OF assms, of s e] that by simp
  consider (skip) "?t = [] \<or> startsWith ?t ''#''"
    | (mod) "\<not> (?t = [] \<or> startsWith ?t ''#'')" "startsWith ?t ''LoadModule''"
    | (vh) "\<not> (?t = [] \<or> startsWith ?t ''#'')" "\<not> startsWith ?t ''LoadModule''"
        "startsWith ?t ''<VirtualHost''"
    | (dir) "\<not> (?t = [] \<or> startsWith ?t ''#'')" "\<not> startsWith ?t ''LoadModule''"
        "\<not> startsWith ?t ''<VirtualHost''" "startsWith ?t ''<Directory''"
    | (ifm) "\<not> (?t = [] \<or> startsWith ?t ''#'')" "\<not> startsWith ?t ''LoadModule''"
        "\<not> startsWith ?t ''<VirtualHost''" "\<not> startsWith ?t ''<Directory''"
        "startsWith ?t ''<IfModule''"
    | (plain) "\<not> (?t = [] \<or> startsWith ?t ''#'')" "\<not> startsWith ?t ''LoadModule''"
        "\<not> startsWith ?t ''<VirtualHost''" "\<not> startsWith ?t ''<Directory''"
        "\<not> startsWith ?t ''<IfModule''"
    by blast
  then show ?thesis
  proof cases
    case skip
    then have "parseLoop lns i cfg = parseLoop lns (i + 1) cfg"
      using assms by (subst parseLoop.simps) (simp add: Let_def)
    moreover from skip have "blankOrComment (lns ! i)" by (simp add: blankOrComment_def)
    ultimately show ?thesis
      by (intro exI [of _ "i + 1"] exI [of _ cfg]) simp
  next
    case mod
    let ?m = "\<lparr> line = lns ! i, modLineNum = i + 1 \<rparr>"
    from mod have "parseLoop lns i cfg = parseLoop lns (i + 1) (cfg\<lparr> modules := modules cfg @ [?m] \<rparr>)"
      using assms by (subst parseLoop.simps) (simp add: Let_def)
    then show ?thesis
      by (intro exI [of _ "i + 1"] exI [of _ "cfg\<lparr> modules := modules cfg @ [?m] \<rparr>"])
         (auto intro: exI [of _ ?m])
  next
    case vh
    let ?b = "extractApacheBlock lns i ''<VirtualHost'' ''</VirtualHost>''"
    from vh have "parseLoop lns i cfg =
        parseLoop lns (endIndex ?b + 1) (cfg\<lparr> virtualHosts := virtualHosts cfg @ [?b] \<rparr>)"
      using assms by (subst parseLoop.simps) (simp add: Let_def)
    with blk [OF refl, of "''<VirtualHost''" "''</VirtualHost>''"] show ?thesis
      by (intro exI [of _ "endIndex ?b + 1"]
            exI [of _ "cfg\<lparr> virtualHosts := virtualHosts cfg @ [?b] \<rparr>"])
         (auto intro: exI [of _ ?b])
  next
    case dir
    let ?b = "extractApacheBlock lns i ''<Directory'' ''</Directory>''"
    from dir have "parseLoop lns i cfg =
        parseLoop lns (endIndex ?b + 1) (cfg\<lparr> directories := directories cfg @ [?b] \<rparr>)"
      using assms by (subst parseLoop.simps) (simp add: Let_def)
    with blk [OF refl, of "''<Directory''" "''</Directory>''"] show ?thesis
      by (intro exI [of _ "endIndex ?b + 1"]
            exI [of _ "cfg\<lparr> directories := directories cfg @ [?b] \<rparr>"])
         (auto intro: exI [of _ ?b])
  next
    case ifm
    let ?b = "extractApacheBlock lns i ''<IfModule'' ''</IfModule>''"
    from ifm have "parseLoop lns i cfg =
        parseLoop lns (endIndex ?b + 1) (cfg\<lparr> ifModules := ifModules cfg @ [?b] \<rparr>)"
      using assms by (subst parseLoop.simps) (simp add: Let_def)
    with blk [OF refl, of "''<IfModule''" "''</IfModule>''"] show ?thesis
      by (intro exI [of _ "endIndex ?b + 1"]
            exI [of _ "cfg\<lparr> ifModules := ifModules cfg @ [?b] \<rparr>"])
         (auto intro: exI [of _ ?b])
  next
    case plain
    then have "\<not> blankOrComment (lns ! i)" by (simp add: blankOrComment_def)
    then obtain d where d: "parseApacheDirective (lns ! i) = Some d"
      using parseApacheDirective_None [of "lns ! i"] by (cases "parseApacheDirective (lns ! i)") auto
    let ?d = "\<lparr> name = name d, val = val d, fullLine = fullLine d, lineNum = i + 1 \<rparr>"
    from plain d have "parseLoop lns i cfg =
        parseLoop lns (i + 1) (cfg\<lparr> directives := directives cfg @ [?d] \<rparr>)"
      using assms by (subst parseLoop.simps) (simp add: Let_def)
    with parseApacheDirective_fullLine [OF d] show ?thesis
      by (intro exI [of _ "i + 1"] exI [of _ "cfg\<lparr> directives := directives cfg @ [?d] \<rparr>"])
         (auto intro: exI [of _ ?d])
  qed
qed

subsection \<open>What the parser records\<close>

lemma take_step:
  assumes "i < i'"
  shows "take i' lns = take i lns @ take (i' - i) (drop i lns)"
proof -
  from assms have "i' = i + (i' - i)" by simp
  then show ?thesis by (metis take_add)
qed

lemma take_one: "i < length lns \<Longrightarrow> take (i + 1 - i) (drop i lns) = [lns ! i]"
  by (simp add: take_Suc_conv_app_nth hd_drop_conv_nth take_Suc)

lemma wholeBlock_more: "list_all (wholeBlock xs) bs \<Longrightarrow> list_all (wholeBlock (xs @ ys)) bs"
proof -
  have "sublist zs (xs @ ys)" if "sublist zs xs" for zs :: "string list"
  proof -
    from that obtain ps ss where "xs = ps @ zs @ ss" by (auto simp: sublist_def)
    then have "xs @ ys = ps @ zs @ (ss @ ys)" by simp
    then show ?thesis unfolding sublist_def by blast
  qed
  then show "list_all (wholeBlock xs) bs \<Longrightarrow> list_all (wholeBlock (xs @ ys)) bs"
    by (induction bs) (simp_all add: wholeBlock_def)
qed

text \<open>A round that adds the lines \<open>new\<close> to one section, or passes over them.\<close>

lemma parsedUpTo_skip:
  assumes "parsedUpTo lns i cfg" and "take i' lns = take i lns @ new"
    and "filter (\<lambda>l. \<not> blankOrComment l) new = []"
  shows "parsedUpTo lns i' cfg"
  using assms
  by (auto simp: parsedUpTo_def intro: subseq_rev_drop_many subset_mset.add_increasing2
        wholeBlock_more)

lemma parsedUpTo_add:
  assumes "parsedUpTo lns i cfg" and "take i' lns = take i lns @ new"
    and "mset (recordedLines cfg') = mset (recordedLines cfg) + mset new"
    and "list_all (wholeBlock (take i lns @ new))
           (ifModules cfg' @ directories cfg' @ virtualHosts cfg')"
    and "subseq (moduleLines cfg') (take i lns @ new)"
    and "subseq (directiveLines cfg') (take i lns @ new)"
    and "subseq (linesOfBlocks (ifModules cfg')) (take i lns @ new)"
    and "subseq (linesOfBlocks (directories cfg')) (take i lns @ new)"
    and "subseq (linesOfBlocks (virtualHosts cfg')) (take i lns @ new)"
  shows "parsedUpTo lns i' cfg'"
proof -
  have "mset (filter (\<lambda>l. \<not> blankOrComment l) new) \<subseteq># mset new"
    by simp
  with assms show ?thesis
    by (auto simp: parsedUpTo_def intro: mset_subset_eq_mono_add)
qed

lemma parsedUpTo_step:
  assumes inv: "parsedUpTo lns i cfg" and i: "i < length lns" and lt: "i < i'"
    and step: "(cfg' = cfg \<and> i' = i + 1 \<and> blankOrComment (lns ! i))
     \<or> (\<exists>m. cfg' = cfg\<lparr> modules := modules cfg @ [m] \<rparr> \<and> line m = lns ! i \<and> i' = i + 1)
     \<or> (\<exists>d. cfg' = cfg\<lparr> directives := directives cfg @ [d] \<rparr> \<and> fullLine d = lns ! i \<and> i' = i + 1)
     \<or> (\<exists>b. cfg' = cfg\<lparr> ifModules := ifModules cfg @ [b] \<rparr> \<and>
              lines b = take (i' - i) (drop i lns) \<and> blockTextOk b)
     \<or> (\<exists>b. cfg' = cfg\<lparr> directories := directories cfg @ [b] \<rparr> \<and>
              lines b = take (i' - i) (drop i lns) \<and> blockTextOk b)
     \<or> (\<exists>b. cfg' = cfg\<lparr> virtualHosts := virtualHosts cfg @ [b] \<rparr> \<and>
              lines b = take (i' - i) (drop i lns) \<and> blockTextOk b)"
  shows "parsedUpTo lns i' cfg'"
proof -
  let ?new = "take (i' - i) (drop i lns)"
  note t = take_step [OF lt, of lns]
  have keep: "subseq xs (take i lns @ ?new)" if "subseq xs (take i lns)" for xs
    using that by (rule subseq_rev_drop_many)
  have grow: "subseq (xs @ ?new) (take i lns @ ?new)" if "subseq xs (take i lns)" for xs
    using that by (simp add: subseq_append)
  from inv have s: "subseq (moduleLines cfg) (take i lns)" "subseq (directiveLines cfg) (take i lns)"
    "subseq (linesOfBlocks (ifModules cfg)) (take i lns)"
    "subseq (linesOfBlocks (directories cfg)) (take i lns)"
    "subseq (linesOfBlocks (virtualHosts cfg)) (take i lns)"
    by (simp_all add: parsedUpTo_def)
  from inv have "list_all (wholeBlock (take i lns)) (ifModules cfg @ directories cfg @ virtualHosts cfg)"
    by (simp add: parsedUpTo_def)
  from wholeBlock_more [OF this, of ?new]
  have ok: "list_all (wholeBlock (take i lns @ ?new)) (ifModules cfg)"
    "list_all (wholeBlock (take i lns @ ?new)) (directories cfg)"
    "list_all (wholeBlock (take i lns @ ?new)) (virtualHosts cfg)"
    by simp_all
  have whole: "wholeBlock (take i lns @ ?new) b" if "lines b = ?new" "blockTextOk b" for b
    using that sublist_append_leftI [of ?new "take i lns"] by (simp add: wholeBlock_def)
  from step consider (skip) "cfg' = cfg" "i' = i + 1" "blankOrComment (lns ! i)"
    | (mod) m where "cfg' = cfg\<lparr> modules := modules cfg @ [m] \<rparr>" "line m = lns ! i" "i' = i + 1"
    | (dir) d where "cfg' = cfg\<lparr> directives := directives cfg @ [d] \<rparr>" "fullLine d = lns ! i" "i' = i + 1"
    | (ifm) b where "cfg' = cfg\<lparr> ifModules := ifModules cfg @ [b] \<rparr>" "lines b = ?new" "blockTextOk b"
    | (dry) b where "cfg' = cfg\<lparr> directories := directories cfg @ [b] \<rparr>" "lines b = ?new" "blockTextOk b"
    | (vh) b where "cfg' = cfg\<lparr> virtualHosts := virtualHosts cfg @ [b] \<rparr>" "lines b = ?new" "blockTextOk b"
    by blast
  then show ?thesis
  proof cases
    case skip
    with take_one [OF i] have "filter (\<lambda>l. \<not> blankOrComment l) ?new = []" by simp
    with inv t skip(1) show ?thesis by (simp add: parsedUpTo_skip)
  next
    case mod
    with take_one [OF i] have new: "take (i' - i) (drop i lns) = [line m]" by simp
    show ?thesis
      unfolding mod(1)
      apply (rule parsedUpTo_add [OF inv t])
      using s ok keep grow [of "moduleLines cfg"]
      unfolding new
      by (simp_all add: recordedLines_def moduleLines_def directiveLines_def)
  next
    case dir
    with take_one [OF i] have new: "take (i' - i) (drop i lns) = [fullLine d]" by simp
    show ?thesis
      unfolding dir(1)
      apply (rule parsedUpTo_add [OF inv t])
      using s ok keep grow [of "directiveLines cfg"]
      unfolding new
      by (simp_all add: recordedLines_def moduleLines_def directiveLines_def)
  next
    case ifm
    show ?thesis
      unfolding ifm(1)
      apply (rule parsedUpTo_add [OF inv t])
      using s ok keep grow [of "linesOfBlocks (ifModules cfg)"] whole [OF ifm(2,3)]
      unfolding ifm(2) [symmetric]
      by (simp_all add: recordedLines_def moduleLines_def directiveLines_def linesOfBlocks_def)
  next
    case dry
    show ?thesis
      unfolding dry(1)
      apply (rule parsedUpTo_add [OF inv t])
      using s ok keep grow [of "linesOfBlocks (directories cfg)"] whole [OF dry(2,3)]
      unfolding dry(2) [symmetric]
      by (simp_all add: recordedLines_def moduleLines_def directiveLines_def linesOfBlocks_def)
  next
    case vh
    show ?thesis
      unfolding vh(1)
      apply (rule parsedUpTo_add [OF inv t])
      using s ok keep grow [of "linesOfBlocks (virtualHosts cfg)"] whole [OF vh(2,3)]
      unfolding vh(2) [symmetric]
      by (simp_all add: recordedLines_def moduleLines_def directiveLines_def linesOfBlocks_def)
  qed
qed

lemma parseLoop_parsedUpTo:
  "parsedUpTo lns i cfg \<Longrightarrow> parsedUpTo lns (length lns) (parseLoop lns i cfg)"
proof (induction "length lns - i" arbitrary: i cfg rule: less_induct)
  case less
  show ?case
  proof (cases "i < length lns")
    case False
    then have "parseLoop lns i cfg = cfg" by (subst parseLoop.simps) simp
    with False less.prems show ?thesis by (simp add: parsedUpTo_def)
  next
    case True
    from parseLoop_step [OF True, of cfg] obtain i' cfg'
      where eq: "parseLoop lns i cfg = parseLoop lns i' cfg'" and adv: "i < i'"
        and step: "(cfg' = cfg \<and> i' = i + 1 \<and> blankOrComment (lns ! i))
     \<or> (\<exists>m. cfg' = cfg\<lparr> modules := modules cfg @ [m] \<rparr> \<and> line m = lns ! i \<and> i' = i + 1)
     \<or> (\<exists>d. cfg' = cfg\<lparr> directives := directives cfg @ [d] \<rparr> \<and> fullLine d = lns ! i \<and> i' = i + 1)
     \<or> (\<exists>b. cfg' = cfg\<lparr> ifModules := ifModules cfg @ [b] \<rparr> \<and>
              lines b = take (i' - i) (drop i lns) \<and> blockTextOk b)
     \<or> (\<exists>b. cfg' = cfg\<lparr> directories := directories cfg @ [b] \<rparr> \<and>
              lines b = take (i' - i) (drop i lns) \<and> blockTextOk b)
     \<or> (\<exists>b. cfg' = cfg\<lparr> virtualHosts := virtualHosts cfg @ [b] \<rparr> \<and>
              lines b = take (i' - i) (drop i lns) \<and> blockTextOk b)"
      by blast
    have inv': "parsedUpTo lns i' cfg'"
      by (rule parsedUpTo_step [OF less.prems True adv step])
    have "length lns - i' < length lns - i" using adv True by arith
    from less.hyps [OF this inv'] show ?thesis unfolding eq .
  qed
qed

lemma parseApacheConfig_parsedUpTo:
  "parsedUpTo (splitOn NL T) (length (splitOn NL T)) (parseApacheConfig T)"
  unfolding parseApacheConfig_def
  by (rule parseLoop_parsedUpTo)
     (simp add: parsedUpTo_def recordedLines_def moduleLines_def directiveLines_def linesOfBlocks_def)

subsection \<open>What the serializer writes\<close>

lemma in_splitOn_join:
  assumes "x \<in> set xs" and "l \<in> set (splitOn c x)"
  shows "l \<in> set (splitOn c (join [c] xs))"
proof -
  from assms(1) have "xs \<noteq> []" by auto
  from splitOn_join [OF this, of c] assms show ?thesis by auto
qed

lemma concat_splitOn_clean:
  "\<forall>l\<in>set ls. c \<notin> set l \<Longrightarrow> concat (map (splitOn c) ls) = ls"
  by (induction ls) (simp_all add: splitOn_no_sep)

lemma splitOn_content:
  assumes "blockTextOk b" and "\<forall>l\<in>set (lines b). NL \<notin> set l"
  shows "splitOn NL (content b) = lines b"
proof -
  from assms(1) have "lines b \<noteq> []" and "content b = join [NL] (lines b)"
    by (simp_all add: blockTextOk_def)
  with splitOn_join [of "lines b" NL] concat_splitOn_clean [OF assms(2)] show ?thesis by simp
qed

lemma concat_splitOn_blocks:
  "list_all blockTextOk bs \<Longrightarrow> \<forall>l\<in>set (linesOfBlocks bs). NL \<notin> set l \<Longrightarrow>
     concat (map (splitOn NL) (map content bs)) = linesOfBlocks bs"
  by (induction bs) (simp_all add: linesOfBlocks_def splitOn_content)

lemma linesOfBlocks_Nil:
  "list_all blockTextOk bs \<Longrightarrow> (linesOfBlocks bs = []) = (bs = [])"
  by (cases bs) (auto simp: linesOfBlocks_def blockTextOk_def)

lemma section_of_lines:
  assumes "\<forall>l\<in>set (map f xs). NL \<notin> set l" and "NL \<notin> set title"
  shows "concat (map (splitOn NL) (if length xs > 0 then [title] @ map f xs @ [[]] else [])) =
           titled title (map f xs)"
  using concat_splitOn_clean [OF assms(1)] assms(2)
  by (simp add: titled_def splitOn_no_sep)

lemma section_of_blocks:
  assumes "list_all blockTextOk bs" and "\<forall>l\<in>set (linesOfBlocks bs). NL \<notin> set l"
    and "NL \<notin> set title"
  shows "concat (map (splitOn NL) (if length bs > 0 then [title] @ map content bs @ [[]] else [])) =
           titled title (linesOfBlocks bs)"
  using concat_splitOn_blocks [OF assms(1,2)] linesOfBlocks_Nil [OF assms(1)] assms(3)
  by (simp add: titled_def splitOn_no_sep)

lemma buildApacheConfig_sections:
  assumes ok: "list_all blockTextOk (ifModules cfg @ directories cfg @ virtualHosts cfg)"
    and clean: "\<forall>l\<in>set (recordedLines cfg). NL \<notin> set l"
  shows "splitOn NL (buildApacheConfig cfg now) =
     [''# ============================================================================'',
      ''# Apache HTTP Server Configuration - Merged by Upgrade Tool'']
     @ splitOn NL (''# Generated: '' @ now)
     @ [''# ============================================================================'', []]
     @ titled ''# Load Modules'' (moduleLines cfg)
     @ titled ''# Server Configuration'' (directiveLines cfg)
     @ titled ''# Conditional Configuration'' (linesOfBlocks (ifModules cfg))
     @ titled ''# Directory Configuration'' (linesOfBlocks (directories cfg))
     @ titled ''# Virtual Hosts'' (linesOfBlocks (virtualHosts cfg))"
proof -
  from clean have c: "\<forall>l\<in>set (map line (modules cfg)). NL \<notin> set l"
    "\<forall>l\<in>set (map fullLine (directives cfg)). NL \<notin> set l"
    "\<forall>l\<in>set (linesOfBlocks (ifModules cfg)). NL \<notin> set l"
    "\<forall>l\<in>set (linesOfBlocks (directories cfg)). NL \<notin> set l"
    "\<forall>l\<in>set (linesOfBlocks (virtualHosts cfg)). NL \<notin> set l"
    by (simp_all add: recordedLines_def moduleLines_def directiveLines_def)
  from ok have o: "list_all blockTextOk (ifModules cfg)" "list_all blockTextOk (directories cfg)"
    "list_all blockTextOk (virtualHosts cfg)"
    by simp_all
  have t: "NL \<notin> set ''# Load Modules''" "NL \<notin> set ''# Server Configuration''"
    "NL \<notin> set ''# Conditional Configuration''" "NL \<notin> set ''# Directory Configuration''"
    "NL \<notin> set ''# Virtual Hosts''"
    by (simp_all add: NL_def)
  have h: "splitOn NL ''# ============================================================================'' =
      [''# ============================================================================'']"
    "splitOn NL ''# Apache HTTP Server Configuration - Merged by Upgrade Tool'' =
      [''# Apache HTTP Server Configuration - Merged by Upgrade Tool'']"
    by (simp_all add: splitOn_no_sep NL_def)
  let ?H = "[''# ============================================================================'',
         ''# Apache HTTP Server Configuration - Merged by Upgrade Tool'',
         ''# Generated: '' @ now,
         ''# ============================================================================'',
         []]"
  let ?M = "if length (modules cfg) > 0
           then [''# Load Modules''] @ map line (modules cfg) @ [[]] else []"
  let ?D = "if length (directives cfg) > 0
           then [''# Server Configuration''] @ map fullLine (directives cfg) @ [[]] else []"
  let ?I = "if length (ifModules cfg) > 0
           then [''# Conditional Configuration''] @ map content (ifModules cfg) @ [[]] else []"
  let ?R = "if length (directories cfg) > 0
           then [''# Directory Configuration''] @ map content (directories cfg) @ [[]] else []"
  let ?V = "if length (virtualHosts cfg) > 0
           then [''# Virtual Hosts''] @ map content (virtualHosts cfg) @ [[]] else []"
  have e: "buildApacheConfig cfg now = join [NL] (?H @ ?M @ ?D @ ?I @ ?R @ ?V)"
    unfolding buildApacheConfig_def ..
  have ne: "?H @ ?M @ ?D @ ?I @ ?R @ ?V \<noteq> []" by simp
  have hd: "concat (map (splitOn NL) ?H) =
     [''# ============================================================================'',
      ''# Apache HTTP Server Configuration - Merged by Upgrade Tool'']
     @ splitOn NL (''# Generated: '' @ now)
     @ [''# ============================================================================'', []]"
    by (simp only: list.map concat.simps h splitOn.simps(1) append.simps append_Nil2)
  have "splitOn NL (buildApacheConfig cfg now) =
      concat (map (splitOn NL) ?H) @ concat (map (splitOn NL) ?M) @ concat (map (splitOn NL) ?D) @
      concat (map (splitOn NL) ?I) @ concat (map (splitOn NL) ?R) @ concat (map (splitOn NL) ?V)"
    unfolding e splitOn_join [OF ne] by (simp only: map_append concat_append)
  then show ?thesis
    unfolding hd section_of_lines [OF c(1) t(1)] section_of_lines [OF c(2) t(2)]
      section_of_blocks [OF o(1) c(3) t(3)] section_of_blocks [OF o(2) c(4) t(4)]
      section_of_blocks [OF o(3) c(5) t(5)] moduleLines_def directiveLines_def
    by (simp only: append_assoc)
qed

lemma buildApacheConfig_title:
  "''# Apache HTTP Server Configuration - Merged by Upgrade Tool'' \<in>
     set (splitOn NL (buildApacheConfig cfg now))"
  unfolding buildApacheConfig_def
  by (rule in_splitOn_join [of "''# Apache HTTP Server Configuration - Merged by Upgrade Tool''"])
     (simp_all add: splitOn_no_sep NL_def)

text \<open>
  C3 as stated fails. The text \<open>round_trip_text\<close> has a comment, a
  \<open>Listen\<close> line and a \<open>LoadModule\<close> line. The serialized parse result has
  eleven lines: the header of the tool with the time of the call, the
  module under its title, the directive under its title, an empty line
  after each of the three. The comment is dropped, lines are added, and
  the module stands before the directive that preceded it in the text. The
  header alone makes the lines differ from those of the text, whatever the
  clock shows.
\<close>

theorem round_trip_counterexample:
  "splitOn NL round_trip_text =
     [''# Local settings'', ''Listen 8080'', ''LoadModule status_module modules/mod_status.so'']
   \<and> splitOn NL (buildApacheConfig (parseApacheConfig round_trip_text)
        ''2024-05-01T10:00:00.000Z'') =
     [''# ============================================================================'',
      ''# Apache HTTP Server Configuration - Merged by Upgrade Tool'',
      ''# Generated: 2024-05-01T10:00:00.000Z'',
      ''# ============================================================================'',
      [],
      ''# Load Modules'',
      ''LoadModule status_module modules/mod_status.so'',
      [],
      ''# Server Configuration'',
      ''Listen 8080'',
      []]
   \<and> (\<forall>now. splitOn NL (buildApacheConfig (parseApacheConfig round_trip_text) now) \<noteq>
         splitOn NL round_trip_text)"
proof (intro conjI allI)
  show l: "splitOn NL round_trip_text =
     [''# Local settings'', ''Listen 8080'', ''LoadModule status_module modules/mod_status.so'']"
    by code_simp
  show "splitOn NL (buildApacheConfig (parseApacheConfig round_trip_text)
        ''2024-05-01T10:00:00.000Z'') =
     [''# ============================================================================'',
      ''# Apache HTTP Server Configuration - Merged by Upgrade Tool'',
      ''# Generated: 2024-05-01T10:00:00.000Z'',
      ''# ============================================================================'',
      [],
      ''# Load Modules'',
      ''LoadModule status_module modules/mod_status.so'',
      [],
      ''# Server Configuration'',
      ''Listen 8080'',
      []]"
    by code_simp
  fix now
  show "splitOn NL (buildApacheConfig (parseApacheConfig round_trip_text) now) \<noteq>
         splitOn NL round_trip_text"
  proof
    assume "splitOn NL (buildApacheConfig (parseApacheConfig round_trip_text) now) =
         splitOn NL round_trip_text"
    with buildApacheConfig_title [of "parseApacheConfig round_trip_text" now]
    have "''# Apache HTTP Server Configuration - Merged by Upgrade Tool'' \<in>
            set (splitOn NL round_trip_text)"
      by simp
    then show False unfolding l by simp
  qed
qed

text \<open>
  C3, amended. For every text \<open>T\<close> and every reading \<open>now\<close> of the clock,
  the lines of the serialized parse result are the header of the tool (two
  fixed lines, the line with the time, a fixed line, an empty line) and
  then up to five sections in a fixed order: modules, directives, IfModule
  blocks, Directory blocks and VirtualHost blocks, each with its title
  before and an empty line after it, and left out when it has no line.
  Each section holds lines of \<open>T\<close>, with their own white space, in the
  order they have in \<open>T\<close>, and every block is a run of consecutive lines
  of \<open>T\<close>. Every line of \<open>T\<close> that is not blank and not a comment stands
  in the sections as often as it occurs in \<open>T\<close>, and the sections hold no
  line more often than \<open>T\<close> does. (Blank lines and comments are kept
  inside a block and dropped outside.)
\<close>

theorem serialized_keeps_lines:
  "(let config = parseApacheConfig T;
        serialized = splitOn NL (buildApacheConfig config now)
    in serialized =
         [''# ============================================================================'',
          ''# Apache HTTP Server Configuration - Merged by Upgrade Tool'']
         @ splitOn NL (''# Generated: '' @ now)
         @ [''# ============================================================================'', []]
         @ titled ''# Load Modules'' (moduleLines config)
         @ titled ''# Server Configuration'' (directiveLines config)
         @ titled ''# Conditional Configuration'' (linesOfBlocks (ifModules config))
         @ titled ''# Directory Configuration'' (linesOfBlocks (directories config))
         @ titled ''# Virtual Hosts'' (linesOfBlocks (virtualHosts config))
       \<and> subseq (moduleLines config) (splitOn NL T)
       \<and> subseq (directiveLines config) (splitOn NL T)
       \<and> subseq (linesOfBlocks (ifModules config)) (splitOn NL T)
       \<and> subseq (linesOfBlocks (directories config)) (splitOn NL T)
       \<and> subseq (linesOfBlocks (virtualHosts config)) (splitOn NL T)
       \<and> list_all (wholeBlock (splitOn NL T))
             (ifModules config @ directories config @ virtualHosts config)
       \<and> mset (filter (\<lambda>l. \<not> blankOrComment l) (splitOn NL T)) \<subseteq># mset (recordedLines config)
       \<and> mset (recordedLines config) \<subseteq># mset (splitOn NL T))"
proof -
  let ?cfg = "parseApacheConfig T"
  from parseApacheConfig_parsedUpTo [of T]
  have s: "subseq (moduleLines ?cfg) (splitOn NL T)" "subseq (directiveLines ?cfg) (splitOn NL T)"
    "subseq (linesOfBlocks (ifModules ?cfg)) (splitOn NL T)"
    "subseq (linesOfBlocks (directories ?cfg)) (splitOn NL T)"
    "subseq (linesOfBlocks (virtualHosts ?cfg)) (splitOn NL T)"
    and m: "mset (filter (\<lambda>l. \<not> blankOrComment l) (splitOn NL T)) \<subseteq># mset (recordedLines ?cfg)"
      "mset (recordedLines ?cfg) \<subseteq># mset (splitOn NL T)"
    and w: "list_all (wholeBlock (splitOn NL T)) (ifModules ?cfg @ directories ?cfg @ virtualHosts ?cfg)"
    by (simp_all add: parsedUpTo_def)
  from w have ok: "list_all blockTextOk (ifModules ?cfg @ directories ?cfg @ virtualHosts ?cfg)"
    by (simp add: list_all_iff wholeBlock_def)
  from set_mset_mono [OF m(2)] have "set (recordedLines ?cfg) \<subseteq> set (splitOn NL T)" by simp
  then have clean: "\<forall>l\<in>set (recordedLines ?cfg). NL \<notin> set l"
    using splitOn_pieces [of _ NL T] by blast
  from buildApacheConfig_sections [OF ok clean, of now] s m w show ?thesis
    by (simp only: Let_def simp_thms)
qed

section \<open>Properties of the upgrade request\<close>











section \<open>The merge and its input documents\<close>

subsection \<open>The directive format\<close>

lemma mergeUserDirectiveS_eq:
  "a < length (dirArrays s) \<Longrightarrow>
   mergeUserDirectiveS a u s =
     s\<lparr> dirArrays := (dirArrays s)[a := fst (mergeUserDirective u (dirArrays s ! a, logs))] \<rparr>"
  by (auto simp: mergeUserDirectiveS_def mergeUserDirective_def split: option.splits)

lemma fold_mergeUserDirectiveS_eq:
  "a < length (dirArrays s) \<Longrightarrow>
   fold (mergeUserDirectiveS a) us s =
     s\<lparr> dirArrays := (dirArrays s)[a := fst (fold mergeUserDirective us (dirArrays s ! a, logs))] \<rparr>"
proof (induction us arbitrary: s logs)
  case Nil
  then show ?case by simp
next
  case (Cons u us)
  obtain ds1 l1 where m: "mergeUserDirective u (dirArrays s ! a, logs) = (ds1, l1)"
    by (cases "mergeUserDirective u (dirArrays s ! a, logs)")
  let ?s = "s\<lparr> dirArrays := (dirArrays s)[a := ds1] \<rparr>"
  have "a < length (dirArrays ?s)" using Cons.prems by simp
  from Cons.IH [OF this, of l1] mergeUserDirectiveS_eq [OF Cons.prems, of u logs] m Cons.prems
  show ?case by simp
qed

lemma extractApacheUserSettingsS_eq:
  assumes "validConfig s c"
  shows "extractApacheUserSettingsS s c =
    (s\<lparr> dirArrays := dirArrays s @
            [filter (\<lambda>x. name x \<in> set APACHE_USER_DIRECTIVES) (dirArrays s ! directives_at c)],
         blkArrays := blkArrays s @
            [[], filter (\<lambda>x. hasUserContent (content x)) (blkArrays s ! directories_at c)],
         modArrays := modArrays s @
            [filter (\<lambda>x. \<not> isDefaultModule (line x)) (modArrays s ! modules_at c)] \<rparr>,
     \<lparr> user_directives_at = length (dirArrays s),
       user_virtualHosts_at = virtualHosts_at c,
       user_directories_at = length (blkArrays s) + 1,
       user_modules_at = length (modArrays s) \<rparr>)"
  using assms
  by (simp add: extractApacheUserSettingsS_def validConfig_def Let_def nth_append list_update_append)

lemma mergeApacheSettingsS_eq:
  assumes "validConfig s n"
    and "user_directives_at u < length (dirArrays s)"
    and "user_virtualHosts_at u < length (blkArrays s)"
    and "user_directories_at u < length (blkArrays s)"
    and "user_modules_at u < length (modArrays s)"
  shows "mergeApacheSettingsS s n u =
    (s\<lparr> dirArrays := dirArrays s @
            [directives (fst (mergeApacheSettings (loadConfig s n) (loadCustomizations s u) []))],
         modArrays := modArrays s @
            [modules (fst (mergeApacheSettings (loadConfig s n) (loadCustomizations s u) []))],
         blkArrays := blkArrays s @
            [virtualHosts (fst (mergeApacheSettings (loadConfig s n) (loadCustomizations s u) [])),
             directories (fst (mergeApacheSettings (loadConfig s n) (loadCustomizations s u) [])),
             ifModules (fst (mergeApacheSettings (loadConfig s n) (loadCustomizations s u) []))] \<rparr>,
     \<lparr> directives_at = length (dirArrays s), modules_at = length (modArrays s),
       virtualHosts_at = length (blkArrays s), directories_at = length (blkArrays s) + 1,
       ifModules_at = length (blkArrays s) + 2 \<rparr>)"
proof -
  let ?s1 = "s\<lparr> dirArrays := dirArrays s @ [dirArrays s ! directives_at n],
                  modArrays := modArrays s @ [modArrays s ! modules_at n],
                  blkArrays := blkArrays s @
                    [blkArrays s ! virtualHosts_at n,
                     blkArrays s ! directories_at n,
                     blkArrays s ! ifModules_at n] \<rparr>"
  have f: "fold (mergeUserDirectiveS (length (dirArrays s))) us ?s1 =
      ?s1\<lparr> dirArrays := dirArrays s @
        [fst (fold mergeUserDirective us (dirArrays s ! directives_at n, []))] \<rparr>" for us
    using fold_mergeUserDirectiveS_eq [of "length (dirArrays s)" ?s1 us "[]"] by simp
  show ?thesis
    using assms
    by (simp add: mergeApacheSettingsS_def Let_def f nth_append list_update_append
          mergeApacheSettings_def loadConfig_def loadCustomizations_def validConfig_def
          split: prod.splits)
qed


text \<open>
  C10, amended, for the directive format. The extraction and the merge leave
  every array the caller holds as it was: the parsed old document and the
  parsed new document are unchanged (so are all other arrays of the store).
  The customizations share the VirtualHost array of the old document, but
  the merge writes only to the arrays of the merged document, which are
  new. Read from the store, the merged document is the one
  \<open>mergeApacheSettings\<close> computes from the two documents.
\<close>

theorem directive_merge_leaves_inputs:
  assumes "validConfig s oldConfig" and "validConfig s newConfig"
  shows "(let s1 = fst (extractApacheUserSettingsS s oldConfig);
              userCustomizations = snd (extractApacheUserSettingsS s oldConfig);
              s2 = fst (mergeApacheSettingsS s1 newConfig userCustomizations);
              merged = snd (mergeApacheSettingsS s1 newConfig userCustomizations)
          in loadConfig s2 oldConfig = loadConfig s oldConfig
           \<and> loadConfig s2 newConfig = loadConfig s newConfig
           \<and> take (length (dirArrays s)) (dirArrays s2) = dirArrays s
           \<and> take (length (modArrays s)) (modArrays s2) = modArrays s
           \<and> take (length (blkArrays s)) (blkArrays s2) = blkArrays s
           \<and> user_virtualHosts_at userCustomizations = virtualHosts_at oldConfig
           \<and> length (dirArrays s) \<le> directives_at merged
           \<and> length (modArrays s) \<le> modules_at merged
           \<and> length (blkArrays s) \<le> virtualHosts_at merged
           \<and> length (blkArrays s) \<le> directories_at merged
           \<and> length (blkArrays s) \<le> ifModules_at merged
           \<and> loadConfig s2 merged =
               fst (mergeApacheSettings (loadConfig s newConfig)
                 (fst (extractApacheUserSettings (loadConfig s oldConfig) [])) []))"
proof -
  let ?s1 = "fst (extractApacheUserSettingsS s oldConfig)"
  let ?u = "snd (extractApacheUserSettingsS s oldConfig)"
  note e = extractApacheUserSettingsS_eq [OF assms(1)]
  have v1: "validConfig ?s1 newConfig" using assms(2) by (simp add: e validConfig_def)
  have u: "user_directives_at ?u < length (dirArrays ?s1)"
    "user_virtualHosts_at ?u < length (blkArrays ?s1)"
    "user_directories_at ?u < length (blkArrays ?s1)"
    "user_modules_at ?u < length (modArrays ?s1)"
    using assms(1) by (simp_all add: e validConfig_def)
  have lc: "loadCustomizations ?s1 ?u = fst (extractApacheUserSettings (loadConfig s oldConfig) [])"
    using assms(1)
    by (simp add: e loadCustomizations_def loadConfig_def extractApacheUserSettings_def
          validConfig_def nth_append Let_def)
  have ln: "loadConfig ?s1 newConfig = loadConfig s newConfig"
    using assms(2) by (simp add: e loadConfig_def validConfig_def nth_append)
  note m = mergeApacheSettingsS_eq [OF v1 u, unfolded lc ln]
  show ?thesis
    unfolding Let_def m
    using assms
    by (simp add: e loadConfig_def validConfig_def nth_append)
qed

theorem directive_merge_leaves_inputs_witness:
  "validConfig store0 old0 \<and> validConfig store0 new0
   \<and> (let s1 = fst (extractApacheUserSettingsS store0 old0);
            userCustomizations = snd (extractApacheUserSettingsS store0 old0);
            s2 = fst (mergeApacheSettingsS s1 new0 userCustomizations);
            merged = snd (mergeApacheSettingsS s1 new0 userCustomizations)
        in loadConfig s2 old0 = loadConfig store0 old0
         \<and> loadConfig s2 new0 = loadConfig store0 new0
         \<and> take (length (dirArrays store0)) (dirArrays s2) = dirArrays store0
         \<and> take (length (modArrays store0)) (modArrays s2) = modArrays store0
         \<and> take (length (blkArrays store0)) (blkArrays s2) = blkArrays store0
         \<and> user_virtualHosts_at userCustomizations = virtualHosts_at old0
         \<and> length (dirArrays store0) \<le> directives_at merged
         \<and> length (modArrays store0) \<le> modules_at merged
         \<and> length (blkArrays store0) \<le> virtualHosts_at merged
         \<and> length (blkArrays store0) \<le> directories_at merged
         \<and> length (blkArrays store0) \<le> ifModules_at merged
         \<and> loadConfig s2 merged =
             fst (mergeApacheSettings (loadConfig store0 new0)
               (fst (extractApacheUserSettings (loadConfig store0 old0) [])) []))"
proof -
  have h1: "validConfig store0 old0" and h2: "validConfig store0 new0"
    by (simp_all add: validConfig_def store0_def old0_def new0_def)
  from directive_merge_leaves_inputs [OF h1 h2] h1 h2 show ?thesis by blast
qed

section \<open>The XML format writes to its inputs\<close>

text \<open>
  C10 as stated fails for the XML format. \<open>mergeTomcatConfig\<close> passes the
  parsed new document itself to \<open>applyTomcatUserSettings\<close> and
  \<open>applyTomcatVAPT\<close>, which write to its objects, and the user's connectors
  are put into it by reference. On \<open>tomcat_heap\<close> the old document's SSL
  connector (cell 7) is collected and pushed on the new document's
  connector array; after the calls the \<open>Server\<close> and the \<open>Service\<close> of the
  new document (cells 1 and 2) have other properties than before, and the
  connectors of both documents (cells 3 and 7) carry the hardening
  attributes.
\<close>

theorem xml_merge_mutates_inputs_counterexample:
  "extractTomcatUserSettings tomcat_heap tomcat_old = ([Ref 7], [])
   \<and> tomcat_heap ! 1 =
       Obj [(''@_port'', Str ''8005''), (''@_shutdown'', Str ''SHUTDOWN''), (''Service'', Ref 2)]
   \<and> tomcat_merged_heap ! 1 =
       Obj [(''@_port'', Str ''-1''), (''@_shutdown'', Str ''SHUTDOWN_k3x9p''), (''Service'', Ref 2)]
   \<and> tomcat_heap ! 2 = Obj [(''@_name'', Str ''Catalina''), (''Connector'', Ref 3)]
   \<and> tomcat_merged_heap ! 2 = Obj [(''@_name'', Str ''Catalina''), (''Connector'', Ref 9)]
   \<and> tomcat_merged_heap ! 9 = Arr [Ref 3, Ref 7]
   \<and> getProp tomcat_heap (Ref 3) ''@_scheme'' = Some Undefined
   \<and> getProp tomcat_merged_heap (Ref 3) ''@_scheme'' = Some (Str ''https'')
   \<and> getProp tomcat_heap tomcat_old ''Server'' = Some (Ref 5)
   \<and> getProp tomcat_heap (Ref 5) ''Service'' = Some (Ref 6)
   \<and> getProp tomcat_heap (Ref 6) ''Connector'' = Some (Ref 7)
   \<and> getProp tomcat_heap (Ref 7) ''@_allowTrace'' = Some Undefined
   \<and> getProp tomcat_merged_heap (Ref 7) ''@_allowTrace'' = Some (Str ''false'')"
  by code_simp

end
